theory Spec2Isabelle
  imports Complex_Main
begin

section \<open>JavaScript values\<close>

text \<open>
  Tool arguments arrive as a JSON object and flow, through unchecked TypeScript casts,
  into the handlers; handler results are plain objects. Both are JavaScript values.
  Numbers are modelled as integers (the code uses them as counts, timeouts and indices),
  meant within the range in which a double is exact and prints in decimal notation; an
  object is the ordered list of its own properties.
\<close>

datatype jsval =
    JUndefined
  | JNull
  | JBool bool
  | JNum int
  | JStr string
  | JArr "jsval list"
  | JObj "(string \<times> jsval) list"

text \<open>Truthiness, as tested by \<^verbatim>\<open>if (x)\<close>, \<^verbatim>\<open>!x\<close>, \<^verbatim>\<open>x || y\<close> and \<^verbatim>\<open>x ? a : b\<close>.\<close>

fun js_truthy :: "jsval \<Rightarrow> bool" where
  "js_truthy JUndefined = False"
| "js_truthy JNull = False"
| "js_truthy (JBool b) = b"
| "js_truthy (JNum n) = (n \<noteq> 0)"
| "js_truthy (JStr s) = (s \<noteq> [])"
| "js_truthy (JArr xs) = True"
| "js_truthy (JObj fs) = True"

text \<open>Decimal digits of a natural number, and the text of an integer.\<close>

fun digits :: "nat \<Rightarrow> string" where
  "digits n = (if n < 10 then [char_of (48 + n)] else digits (n div 10) @ [char_of (48 + n mod 10)])"

definition show_int :: "int \<Rightarrow> string" where
  "show_int i = (if i < 0 then CHR ''-'' # digits (nat (- i)) else digits (nat i))"

fun join_comma :: "string list \<Rightarrow> string" where
  "join_comma [] = []"
| "join_comma [x] = x"
| "join_comma (x # y # ys) = x @ CHR '','' # join_comma (y # ys)"

text \<open>
  \<^verbatim>\<open>String(v)\<close>, which is also what a template literal \<^verbatim>\<open>`${v}`\<close> inserts: a string is
  inserted as it is; an array joins its elements with commas, null and undefined elements
  giving the empty text.
\<close>

fun js_String :: "jsval \<Rightarrow> string" where
  "js_String JUndefined = ''undefined''"
| "js_String JNull = ''null''"
| "js_String (JBool b) = (if b then ''true'' else ''false'')"
| "js_String (JNum n) = show_int n"
| "js_String (JStr s) = s"
| "js_String (JArr xs) =
     join_comma (map (\<lambda>x. if x = JUndefined \<or> x = JNull then [] else js_String x) xs)"
| "js_String (JObj fs) = ''[object Object]''"

text \<open>Property read \<^verbatim>\<open>o.k\<close> on an object: the value, or undefined when the property is absent.\<close>

fun js_get :: "jsval \<Rightarrow> string \<Rightarrow> jsval" where
  "js_get (JObj fs) k = (case map_of fs k of Some v \<Rightarrow> v | None \<Rightarrow> JUndefined)"
| "js_get v k = JUndefined"

text \<open>
  A number passed directly to a function of the code: NaN, an infinity, or a finite value.
  The comparisons \<^verbatim>\<open>x < 0\<close> and \<^verbatim>\<open>x >= n\<close> are false for NaN.
\<close>

datatype number = NaN | Infinity | NegInfinity | Finite rat

fun below_zero :: "number \<Rightarrow> bool" where
  "below_zero NaN = False"
| "below_zero Infinity = False"
| "below_zero NegInfinity = True"
| "below_zero (Finite q) = (q < 0)"

fun at_least :: "number \<Rightarrow> nat \<Rightarrow> bool" where
  "at_least NaN n = False"
| "at_least Infinity n = True"
| "at_least NegInfinity n = False"
| "at_least (Finite q) n = (of_nat n \<le> q)"

text \<open>
  The array read \<^verbatim>\<open>xs[x]\<close>: the element when \<open>x\<close> is an integer within the array,
  undefined (\<open>None\<close>) for every other number.
\<close>

fun element_at :: "'a list \<Rightarrow> number \<Rightarrow> 'a option" where
  "element_at xs (Finite q) =
     (if of_int \<lfloor>q\<rfloor> = q \<and> 0 \<le> q \<and> nat \<lfloor>q\<rfloor> < length xs then Some (xs ! nat \<lfloor>q\<rfloor>) else None)"
| "element_at xs x = None"

text \<open>
  A string is the sequence of the UTF-8 bytes of the JavaScript string.
  \<^verbatim>\<open>String.prototype.trim\<close> strips white space and line terminators from both ends:
  U+0009 to U+000D, U+0020, U+00A0, U+1680, U+2000 to U+200A, U+2028, U+2029, U+202F,
  U+205F, U+3000 and U+FEFF, here by their byte sequences.
\<close>

definition white_space :: "string list" where
  "white_space =
     [[CHR 0x09], [CHR 0x0A], [CHR 0x0B], [CHR 0x0C], [CHR 0x0D], [CHR 0x20],
      [CHR 0xC2, CHR 0xA0],
      [CHR 0xE1, CHR 0x9A, CHR 0x80],
      [CHR 0xE2, CHR 0x80, CHR 0x80], [CHR 0xE2, CHR 0x80, CHR 0x81],
      [CHR 0xE2, CHR 0x80, CHR 0x82], [CHR 0xE2, CHR 0x80, CHR 0x83],
      [CHR 0xE2, CHR 0x80, CHR 0x84], [CHR 0xE2, CHR 0x80, CHR 0x85],
      [CHR 0xE2, CHR 0x80, CHR 0x86], [CHR 0xE2, CHR 0x80, CHR 0x87],
      [CHR 0xE2, CHR 0x80, CHR 0x88], [CHR 0xE2, CHR 0x80, CHR 0x89],
      [CHR 0xE2, CHR 0x80, CHR 0x8A],
      [CHR 0xE2, CHR 0x80, CHR 0xA8], [CHR 0xE2, CHR 0x80, CHR 0xA9],
      [CHR 0xE2, CHR 0x80, CHR 0xAF],
      [CHR 0xE2, CHR 0x81, CHR 0x9F],
      [CHR 0xE3, CHR 0x80, CHR 0x80],
      [CHR 0xEF, CHR 0xBB, CHR 0xBF]]"

text \<open>Removing from the front of \<open>s\<close>, as long as there is one, a sequence of the list.\<close>

function strip_leading :: "string list \<Rightarrow> string \<Rightarrow> string" where
  "strip_leading ws s =
     (case find (\<lambda>w. w \<noteq> [] \<and> take (length w) s = w) ws of
        None \<Rightarrow> s
      | Some w \<Rightarrow> strip_leading ws (drop (length w) s))"
  by pat_completeness auto
termination
proof (relation "measure (\<lambda>(ws, s). length s)")
  show "wf (measure (\<lambda>(ws, s). length s))" by simp
next
  fix ws :: "string list" and s w :: string
  assume "find (\<lambda>w. w \<noteq> [] \<and> take (length w) s = w) ws = Some w"
  then have "w \<noteq> []" and "take (length w) s = w"
    by (auto simp: find_Some_iff)
  then have "s \<noteq> []" by auto
  with \<open>w \<noteq> []\<close> show "((ws, drop (length w) s), (ws, s)) \<in> measure (\<lambda>(ws, s). length s)"
    by simp
qed

declare strip_leading.simps [simp del]

definition js_trim :: "string \<Rightarrow> string" where
  "js_trim s = rev (strip_leading (map rev white_space) (rev (strip_leading white_space s)))"

section \<open>Thrown values\<close>

text \<open>
  The browser library rejects with \<^verbatim>\<open>Error\<close> objects: a name and a message.
  \<^verbatim>\<open>String(error)\<close> is \<^verbatim>\<open>Error.prototype.toString\<close>.
\<close>

datatype js_error = JsError (err_name: string) (err_message: string)

definition String_error :: "js_error \<Rightarrow> string" where
  "String_error e =
     (if err_name e = [] then err_message e
      else if err_message e = [] then err_name e
      else err_name e @ '': '' @ err_message e)"

section \<open>The browser library as an environment\<close>

datatype Browser = Browser nat
datatype BrowserContext = BrowserContext nat
datatype Page = Page nat
datatype ElementHandle = ElementHandle nat

text \<open>
  What the callbacks given to \<^verbatim>\<open>page.$$eval\<close> read of a matched row: its own
  \<^verbatim>\<open>textContent\<close>, and the \<^verbatim>\<open>textContent\<close> of its first descendant matching
  \<^verbatim>\<open>[dir="auto"]\<close> (\<open>None\<close> when there is no such descendant or the text is null).
\<close>

record dom_row =
  row_text :: "string option"
  dir_auto_text :: "string option"

text \<open>Every asynchronous request made to the browser library, with its arguments.\<close>

datatype call =
    ChromiumLaunch "string option" bool
  | LaunchPersistentContext string "string option" bool
  | NewContext Browser
  | NewPage BrowserContext
  | SetDefaultTimeout Page int
  | SetDefaultNavigationTimeout Page int
  | ContextClose BrowserContext
  | BrowserClose Browser
  | Goto Page jsval
  | WaitForLoadState Page string
  | Title Page
  | Screenshot Page jsval
  | Click Page jsval
  | Fill Page jsval jsval
  | Query Page jsval
  | QueryAll Page string
  | Evaluate Page jsval
  | EvaluateAccessibilityTree Page
  | WaitForSelector Page jsval jsval
  | WaitForTimeout Page int
  | KeyboardPress Page string
  | ElementClick ElementHandle
  | ElementFill ElementHandle jsval
  | ElementSetInputFiles ElementHandle jsval
  | ElementTextContent ElementHandle

datatype reply =
    Threw js_error
  | Done
  | GotBrowser Browser
  | GotContext BrowserContext
  | GotPage Page
  | GotElement "ElementHandle option"
  | GotString string
  | GotText "string option"
  | GotRows "dom_row list"
  | GotValue jsval

type_synonym event = "call \<times> reply"

text \<open>The configuration object of \<^verbatim>\<open>config.ts\<close>, read once at start.\<close>

record config =
  browser_type :: string
  userDataDir :: "string option"
  headless :: bool
  timeouts_navigation :: int
  timeouts_action :: int
  messenger_url :: string

text \<open>
  The environment answers each request from the history of requests and answers so far:
  one answering function per result type of the library, each either rejecting with an
  error or resolving with a value. The synchronous getters \<^verbatim>\<open>page.url()\<close>,
  \<^verbatim>\<open>context.pages()\<close> and \<^verbatim>\<open>page.context()\<close> read the library's local state and
  do not reject.
  The last two fields are conversions of the language: of a string to a number
  (\<open>None\<close> for NaN), which the code relies on only when a count that is a string is
  negated, and of a finite number to its text where that is not plain decimal digits.
\<close>

record runtime =
  cfg :: config
  r_unit :: "event list \<Rightarrow> call \<Rightarrow> js_error + unit"
  r_browser :: "event list \<Rightarrow> call \<Rightarrow> js_error + Browser"
  r_context :: "event list \<Rightarrow> call \<Rightarrow> js_error + BrowserContext"
  r_page :: "event list \<Rightarrow> call \<Rightarrow> js_error + Page"
  r_element :: "event list \<Rightarrow> call \<Rightarrow> js_error + ElementHandle option"
  r_string :: "event list \<Rightarrow> call \<Rightarrow> js_error + string"
  r_text :: "event list \<Rightarrow> call \<Rightarrow> js_error + string option"
  r_rows :: "event list \<Rightarrow> call \<Rightarrow> js_error + dom_row list"
  r_value :: "event list \<Rightarrow> call \<Rightarrow> js_error + jsval"
  url_of :: "event list \<Rightarrow> Page \<Rightarrow> string"
  pages_of :: "event list \<Rightarrow> BrowserContext \<Rightarrow> Page list"
  context_of :: "Page \<Rightarrow> BrowserContext"
  string_to_number :: "string \<Rightarrow> int option"
  number_to_string :: "rat \<Rightarrow> string"

section \<open>State and the monad of asynchronous code\<close>

text \<open>
  The singleton \<^verbatim>\<open>browserManager\<close> with its three private slots, and the trace of the
  requests made to the browser library so far. A slot is \<open>None\<close> when it holds no object:
  when it is null or, for the page slot, the undefined that \<^verbatim>\<open>setActivePage\<close> can store
  there. The code reads the page slot by \<^verbatim>\<open>!this.page\<close> only, which is true of both.
\<close>

record state =
  this_browser :: "Browser option"
  this_context :: "BrowserContext option"
  this_page :: "Page option"
  trace :: "event list"

type_synonym 'a io = "state \<Rightarrow> (js_error + 'a) \<times> state"

definition io_return :: "'a \<Rightarrow> 'a io" where
  "io_return x s = (Inr x, s)"

definition io_throw :: "js_error \<Rightarrow> 'a io" where
  "io_throw e s = (Inl e, s)"

definition io_bind :: "'a io \<Rightarrow> ('a \<Rightarrow> 'b io) \<Rightarrow> 'b io" where
  "io_bind m f s = (case m s of (Inl e, s') \<Rightarrow> (Inl e, s') | (Inr x, s') \<Rightarrow> f x s')"

definition io_then :: "unit io \<Rightarrow> 'b io \<Rightarrow> 'b io" where
  "io_then m k = io_bind m (\<lambda>_. k)"

text \<open>\<^verbatim>\<open>try { m } catch (error) { h(error) }\<close>\<close>

definition io_catch :: "'a io \<Rightarrow> (js_error \<Rightarrow> 'a io) \<Rightarrow> 'a io" where
  "io_catch m h s = (case m s of (Inl e, s') \<Rightarrow> h e s' | (Inr x, s') \<Rightarrow> (Inr x, s'))"

text \<open>An awaited request: the environment answers, and request and answer are recorded.\<close>

definition perform ::
  "(event list \<Rightarrow> call \<Rightarrow> js_error + 'a) \<Rightarrow> ('a \<Rightarrow> reply) \<Rightarrow> call \<Rightarrow> 'a io" where
  "perform answer tag c s =
     (case answer (trace s) c of
        Inl e \<Rightarrow> (Inl e, s\<lparr>trace := trace s @ [(c, Threw e)]\<rparr>)
      | Inr v \<Rightarrow> (Inr v, s\<lparr>trace := trace s @ [(c, tag v)]\<rparr>))"

text \<open>A synchronous setter: recorded, never rejecting.\<close>

definition notify :: "call \<Rightarrow> unit io" where
  "notify c s = (Inr (), s\<lparr>trace := trace s @ [(c, Done)]\<rparr>)"

definition await_unit :: "runtime \<Rightarrow> call \<Rightarrow> unit io" where
  "await_unit R = perform (r_unit R) (\<lambda>_. Done)"

definition await_element :: "runtime \<Rightarrow> call \<Rightarrow> ElementHandle option io" where
  "await_element R = perform (r_element R) GotElement"

definition await_string :: "runtime \<Rightarrow> call \<Rightarrow> string io" where
  "await_string R = perform (r_string R) GotString"

definition await_text :: "runtime \<Rightarrow> call \<Rightarrow> string option io" where
  "await_text R = perform (r_text R) GotText"

definition await_rows :: "runtime \<Rightarrow> call \<Rightarrow> dom_row list io" where
  "await_rows R = perform (r_rows R) GotRows"

definition await_value :: "runtime \<Rightarrow> call \<Rightarrow> jsval io" where
  "await_value R = perform (r_value R) GotValue"

text \<open>The events a run added to the trace.\<close>

definition new_events :: "state \<Rightarrow> state \<Rightarrow> event list" where
  "new_events s s' = drop (length (trace s)) (trace s')"

section \<open>BrowserManager\<close>

definition channel :: "runtime \<Rightarrow> string option" where
  "channel R = (if browser_type (cfg R) = ''msedge'' then Some ''msedge'' else None)"

definition set_timeouts :: "runtime \<Rightarrow> Page \<Rightarrow> unit io" where
  "set_timeouts R p =
     io_then (notify (SetDefaultTimeout p (timeouts_action (cfg R))))
             (notify (SetDefaultNavigationTimeout p (timeouts_navigation (cfg R))))"

definition set_browser :: "Browser \<Rightarrow> unit io" where
  "set_browser b s = (Inr (), s\<lparr>this_browser := Some b\<rparr>)"

definition set_context :: "BrowserContext \<Rightarrow> unit io" where
  "set_context c s = (Inr (), s\<lparr>this_context := Some c\<rparr>)"

definition set_page :: "Page \<Rightarrow> unit io" where
  "set_page p s = (Inr (), s\<lparr>this_page := Some p\<rparr>)"

text \<open>
  \<^verbatim>\<open>initialize\<close>: each slot is assigned as soon as its own request has resolved; nothing
  is undone when a later request rejects.
\<close>

definition initialize :: "runtime \<Rightarrow> unit io" where
  "initialize R =
     io_bind (perform (r_browser R) GotBrowser (ChromiumLaunch (channel R) (headless (cfg R))))
       (\<lambda>b. io_then (set_browser b)
         (io_bind
           (case userDataDir (cfg R) of
              Some dir \<Rightarrow>
                if dir \<noteq> [] then
                  io_bind (perform (r_context R) GotContext
                             (LaunchPersistentContext dir (channel R) (headless (cfg R))))
                    (\<lambda>c. io_then (set_context c)
                      (\<lambda>s. (case pages_of R (trace s) c of
                               p # ps \<Rightarrow> io_return p
                             | [] \<Rightarrow> perform (r_page R) GotPage (NewPage c)) s))
                else
                  io_bind (perform (r_context R) GotContext (NewContext b))
                    (\<lambda>c. io_then (set_context c) (perform (r_page R) GotPage (NewPage c)))
            | None \<Rightarrow>
                io_bind (perform (r_context R) GotContext (NewContext b))
                  (\<lambda>c. io_then (set_context c) (perform (r_page R) GotPage (NewPage c))))
           (\<lambda>p. io_then (set_page p) (set_timeouts R p))))"

text \<open>
  \<^verbatim>\<open>return this.page!\<close>: the slot as it is; were it still null, the caller's first use
  of the page would raise a TypeError.
\<close>

definition read_page :: "Page io" where
  "read_page s =
     (case this_page s of
        Some p \<Rightarrow> (Inr p, s)
      | None \<Rightarrow> (Inl (JsError ''TypeError'' ''Cannot read properties of null''), s))"

definition getPage :: "runtime \<Rightarrow> Page io" where
  "getPage R s =
     (if this_page s = None then io_then (initialize R) read_page s else read_page s)"

definition close :: "runtime \<Rightarrow> unit io" where
  "close R =
     io_then (\<lambda>s. (case this_context s of
                      Some c \<Rightarrow> await_unit R (ContextClose c)
                    | None \<Rightarrow> io_return ()) s)
       (io_then (\<lambda>s. (case this_browser s of
                         Some b \<Rightarrow> await_unit R (BrowserClose b)
                       | None \<Rightarrow> io_return ()) s)
          (\<lambda>s. (Inr (), s\<lparr>this_browser := None, this_context := None, this_page := None\<rparr>)))"

text \<open>
  \<^verbatim>\<open>setActivePage\<close> assigns its argument to the slot and then sets the timeouts on
  \<^verbatim>\<open>this.page\<close>. The argument is undefined (\<open>None\<close>) when the caller read it outside
  an array: the slot then holds no page, and the call of a method on it raises a TypeError.
\<close>

definition setActivePage :: "runtime \<Rightarrow> Page option \<Rightarrow> unit io" where
  "setActivePage R page =
     io_then (\<lambda>s. (Inr (), s\<lparr>this_page := page\<rparr>))
       (case page of
          Some p \<Rightarrow> set_timeouts R p
        | None \<Rightarrow>
            io_throw (JsError ''TypeError''
              (''Cannot read properties of undefined (reading '' @ [CHR 0x27] @
                 ''setDefaultTimeout'' @ [CHR 0x27] @ '')'')))"

text \<open>
  \<^verbatim>\<open>isInitialized\<close> is called nowhere in the code. On a slot that is null or a page its
  test \<^verbatim>\<open>this.page !== null\<close> is that the slot holds a page, which is what it is here;
  on the undefined slot that \<^verbatim>\<open>setActivePage\<close> can leave, the source answers true
  although the slot holds no page and \<^verbatim>\<open>getPage\<close> initializes again.
\<close>

definition isInitialized :: "state \<Rightarrow> bool" where
  "isInitialized s = (this_page s \<noteq> None)"

section \<open>General web tools\<close>

text \<open>A default parameter value applies exactly when the argument is undefined.\<close>

definition default_arg :: "jsval \<Rightarrow> jsval \<Rightarrow> jsval" where
  "default_arg v d = (if v = JUndefined then d else v)"

definition page_url :: "runtime \<Rightarrow> Page \<Rightarrow> string io" where
  "page_url R p s = (Inr (url_of R (trace s) p), s)"

definition context_pages :: "runtime \<Rightarrow> BrowserContext \<Rightarrow> Page list io" where
  "context_pages R c s = (Inr (pages_of R (trace s) c), s)"

definition navigate :: "runtime \<Rightarrow> jsval \<Rightarrow> jsval io" where
  "navigate R url =
     io_catch
       (io_bind (getPage R) (\<lambda>p.
        io_then (await_unit R (Goto p url))
       (io_then (await_unit R (WaitForLoadState p ''networkidle''))
       (io_bind (await_string R (Title p)) (\<lambda>title.
        io_return (JObj [(''success'', JBool True), (''title'', JStr title)]))))))
       (\<lambda>error. io_return (JObj [(''success'', JBool False), (''error'', JStr (String_error error))]))"

text \<open>The environment answers a screenshot request with the base64 text of the image.\<close>

definition screenshot :: "runtime \<Rightarrow> jsval \<Rightarrow> jsval io" where
  "screenshot R fullPage =
     io_catch
       (io_bind (getPage R) (\<lambda>p.
        io_bind (await_string R (Screenshot p (default_arg fullPage (JBool False)))) (\<lambda>base64.
        io_return (JObj [(''success'', JBool True), (''base64'', JStr base64)]))))
       (\<lambda>error. io_return (JObj [(''success'', JBool False), (''error'', JStr (String_error error))]))"

definition click :: "runtime \<Rightarrow> jsval \<Rightarrow> jsval io" where
  "click R selector =
     io_catch
       (io_bind (getPage R) (\<lambda>p.
        io_then (await_unit R (Click p selector))
       (io_return (JObj [(''success'', JBool True)]))))
       (\<lambda>error. io_return (JObj [(''success'', JBool False), (''error'', JStr (String_error error))]))"

definition type :: "runtime \<Rightarrow> jsval \<Rightarrow> jsval \<Rightarrow> jsval io" where
  "type R selector text =
     io_catch
       (io_bind (getPage R) (\<lambda>p.
        io_then (await_unit R (Fill p selector text))
       (io_return (JObj [(''success'', JBool True)]))))
       (\<lambda>error. io_return (JObj [(''success'', JBool False), (''error'', JStr (String_error error))]))"

definition extractText :: "runtime \<Rightarrow> jsval \<Rightarrow> jsval io" where
  "extractText R selector =
     io_catch
       (io_bind (getPage R) (\<lambda>p.
        io_bind (if js_truthy selector then await_element R (Query p selector)
                 else await_element R (Query p (JStr ''body''))) (\<lambda>element.
        case element of
          None \<Rightarrow>
            io_return (JObj [(''success'', JBool False),
              (''error'', JStr (''Element not found: '' @
                 (if js_truthy selector then js_String selector else ''body'')))])
        | Some el \<Rightarrow>
            io_bind (await_text R (ElementTextContent el)) (\<lambda>text.
            io_return (JObj [(''success'', JBool True),
              (''text'', JStr (case text of None \<Rightarrow> [] | Some t \<Rightarrow> js_trim t))])))))
       (\<lambda>error. io_return (JObj [(''success'', JBool False), (''error'', JStr (String_error error))]))"

definition executeJs :: "runtime \<Rightarrow> jsval \<Rightarrow> jsval io" where
  "executeJs R script =
     io_catch
       (io_bind (getPage R) (\<lambda>p.
        io_bind (await_value R (Evaluate p script)) (\<lambda>result.
        io_return (JObj [(''success'', JBool True), (''result'', result)]))))
       (\<lambda>error. io_return (JObj [(''success'', JBool False), (''error'', JStr (String_error error))]))"

definition waitFor :: "runtime \<Rightarrow> jsval \<Rightarrow> jsval \<Rightarrow> jsval io" where
  "waitFor R selector timeout =
     io_catch
       (io_bind (getPage R) (\<lambda>p.
        io_then (await_unit R (WaitForSelector p selector (default_arg timeout (JNum 5000))))
       (io_return (JObj [(''success'', JBool True)]))))
       (\<lambda>error. io_return (JObj [(''success'', JBool False), (''error'', JStr (String_error error))]))"

definition getCurrentUrl :: "runtime \<Rightarrow> jsval io" where
  "getCurrentUrl R =
     io_catch
       (io_bind (getPage R) (\<lambda>p.
        io_bind (page_url R p) (\<lambda>url.
        io_return (JObj [(''url'', JStr url)]))))
       (\<lambda>error. io_return (JObj [(''url'', JStr []), (''error'', JStr (String_error error))]))"

text \<open>
  The text of a number in a template literal: NaN and the infinities by name, an integer
  below \<open>10\<^sup>2\<^sup>1\<close> in magnitude by its decimal digits, any other finite number as the
  language prints it.
\<close>

definition number_text :: "runtime \<Rightarrow> number \<Rightarrow> string" where
  "number_text R x =
     (case x of
        NaN \<Rightarrow> ''NaN''
      | Infinity \<Rightarrow> ''Infinity''
      | NegInfinity \<Rightarrow> ''-Infinity''
      | Finite q \<Rightarrow>
          if of_int \<lfloor>q\<rfloor> = q \<and> \<bar>q\<bar> < 10 ^ 21 then show_int \<lfloor>q\<rfloor> else number_to_string R q)"

text \<open>
  \<^verbatim>\<open>switchTab\<close>: the index is any number. The guard is the pair of comparisons of the
  source; past it, \<^verbatim>\<open>pages[index]\<close> is read and handed to \<^verbatim>\<open>setActivePage\<close> unchecked.
  (\<^verbatim>\<open>listTabs\<close>, which awaits the titles of all pages at once, is not part of this
  development; no tool case calls either function.)
\<close>

definition switchTab :: "runtime \<Rightarrow> number \<Rightarrow> jsval io" where
  "switchTab R index =
     io_catch
       (io_bind (getPage R) (\<lambda>p.
        io_bind (context_pages R (context_of R p)) (\<lambda>pages.
        if below_zero index \<or> at_least index (length pages) then
          io_return (JObj [(''success'', JBool False),
            (''error'', JStr (''Invalid tab index: '' @ number_text R index))])
        else
          io_then (setActivePage R (element_at pages index))
            (io_return (JObj [(''success'', JBool True)])))))
       (\<lambda>error. io_return (JObj [(''success'', JBool False), (''error'', JStr (String_error error))]))"

definition getAccessibilitySnapshot :: "runtime \<Rightarrow> jsval io" where
  "getAccessibilitySnapshot R =
     io_catch
       (io_bind (getPage R) (\<lambda>p.
        io_bind (await_element R (Query p (JStr ''body''))) (\<lambda>bodyHandle.
        case bodyHandle of
          None \<Rightarrow>
            io_return (JObj [(''success'', JBool False), (''error'', JStr ''Could not get page body'')])
        | Some b \<Rightarrow>
            io_bind (await_value R (EvaluateAccessibilityTree p)) (\<lambda>snapshot.
            io_return (JObj [(''success'', JBool True), (''snapshot'', snapshot)])))))
       (\<lambda>error. io_return (JObj [(''success'', JBool False), (''error'', JStr (String_error error))]))"

section \<open>Messenger tools\<close>

text \<open>The selectors of \<^verbatim>\<open>SELECTORS\<close>, and the three written in place.\<close>

definition searchInput :: string where
  \<open>searchInput = ''[aria-label="Search Messenger"]''\<close>

definition conversationList :: string where
  \<open>conversationList = ''[role="navigation"] [role="row"]''\<close>

definition messageInput :: string where
  \<open>messageInput = ''[aria-label="Message"]''\<close>

definition messageList :: string where
  \<open>messageList = ''[role="main"] [role="row"]''\<close>

definition fileInput :: string where
  \<open>fileInput = ''input[type="file"]''\<close>

definition attachButton :: string where
  \<open>attachButton = ''[aria-label="Attach a file"]''\<close>

definition loginMarker :: string where
  \<open>loginMarker = ''input[name="email"]''\<close>

definition searchOption :: string where
  \<open>searchOption = ''[role="listbox"] [role="option"]''\<close>

definition conversationHeader :: string where
  \<open>conversationHeader = ''[role="main"] h1, [role="main"] [dir="auto"]''\<close>

text \<open>\<^verbatim>\<open>s.includes(sub)\<close>\<close>

fun js_includes :: "string \<Rightarrow> string \<Rightarrow> bool" where
  "js_includes [] sub = (sub = [])"
| "js_includes (c # cs) sub = (take (length sub) (c # cs) = sub \<or> js_includes cs sub)"

definition ensureMessengerOpen :: "runtime \<Rightarrow> jsval io" where
  "ensureMessengerOpen R =
     io_catch
       (io_bind (getPage R) (\<lambda>p.
        io_bind (page_url R p) (\<lambda>currentUrl.
        io_then (if \<not> js_includes currentUrl ''messenger.com'' then
                   io_then (await_unit R (Goto p (JStr (messenger_url (cfg R)))))
                           (await_unit R (WaitForLoadState p ''networkidle''))
                 else io_return ())
       (io_bind (await_element R (Query p (JStr loginMarker))) (\<lambda>isLoginPage.
        case isLoginPage of
          Some el \<Rightarrow>
            io_return (JObj [(''success'', JBool False),
              (''error'', JStr ''Please log in to Messenger manually in the browser window, then try again.'')])
        | None \<Rightarrow> io_return (JObj [(''success'', JBool True)]))))))
       (\<lambda>error. io_return (JObj [(''success'', JBool False), (''error'', JStr (String_error error))]))"

text \<open>
  The callback of \<^verbatim>\<open>listConversations\<close>, run on the matched rows:
  \<^verbatim>\<open>rows.slice(0, 20).map(name or '').filter(Boolean)\<close>.
\<close>

definition conversation_names :: "dom_row list \<Rightarrow> string list" where
  "conversation_names rows =
     filter (\<lambda>name. name \<noteq> [])
       (map (\<lambda>row. case dir_auto_text row of None \<Rightarrow> [] | Some t \<Rightarrow> js_trim t) (take 20 rows))"

definition listConversations :: "runtime \<Rightarrow> jsval io" where
  "listConversations R =
     io_catch
       (io_bind (ensureMessengerOpen R) (\<lambda>messengerStatus.
        if \<not> js_truthy (js_get messengerStatus ''success'') then
          io_return (JObj [(''conversations'', JArr []), (''error'', js_get messengerStatus ''error'')])
        else
          io_bind (getPage R) (\<lambda>p.
          io_bind (await_rows R (QueryAll p conversationList)) (\<lambda>rows.
          io_return (JObj [(''conversations'', JArr (map JStr (conversation_names rows)))])))))
       (\<lambda>error. io_return (JObj [(''conversations'', JArr []), (''error'', JStr (String_error error))]))"

text \<open>The callback of \<^verbatim>\<open>searchConversation\<close>: \<^verbatim>\<open>options.map(text or '').filter(Boolean)\<close>.\<close>

definition option_texts :: "dom_row list \<Rightarrow> string list" where
  "option_texts options =
     filter (\<lambda>t. t \<noteq> [])
       (map (\<lambda>opt. case row_text opt of None \<Rightarrow> [] | Some t \<Rightarrow> js_trim t) options)"

definition searchConversation :: "runtime \<Rightarrow> jsval \<Rightarrow> jsval io" where
  "searchConversation R query =
     io_catch
       (io_bind (ensureMessengerOpen R) (\<lambda>messengerStatus.
        if \<not> js_truthy (js_get messengerStatus ''success'') then
          io_return (JObj [(''results'', JArr []), (''error'', js_get messengerStatus ''error'')])
        else
          io_bind (getPage R) (\<lambda>p.
          io_bind (await_element R (Query p (JStr searchInput))) (\<lambda>found.
          case found of
            None \<Rightarrow>
              io_return (JObj [(''results'', JArr []), (''error'', JStr ''Could not find search input'')])
          | Some si \<Rightarrow>
              io_then (await_unit R (ElementClick si))
             (io_then (await_unit R (ElementFill si query))
             (io_then (await_unit R (WaitForTimeout p 1000))
             (io_bind (await_rows R (QueryAll p searchOption)) (\<lambda>options.
              io_then (await_unit R (ElementFill si (JStr [])))
             (io_then (await_unit R (KeyboardPress p ''Escape''))
             (io_return (JObj [(''results'', JArr (map JStr (option_texts options)))])))))))))))
       (\<lambda>error. io_return (JObj [(''results'', JArr []), (''error'', JStr (String_error error))]))"

definition openConversation :: "runtime \<Rightarrow> jsval \<Rightarrow> jsval io" where
  "openConversation R conversationName =
     io_catch
       (io_bind (getPage R) (\<lambda>p.
        io_bind (await_element R (Query p (JStr searchInput))) (\<lambda>found.
        case found of
          None \<Rightarrow>
            io_return (JObj [(''success'', JBool False), (''error'', JStr ''Could not find search input'')])
        | Some si \<Rightarrow>
            io_then (await_unit R (ElementClick si))
           (io_then (await_unit R (ElementFill si conversationName))
           (io_then (await_unit R (WaitForTimeout p 1000))
           (io_bind (await_element R (Query p (JStr searchOption))) (\<lambda>firstResult.
            case firstResult of
              None \<Rightarrow>
                io_return (JObj [(''success'', JBool False),
                  (''error'', JStr (''Could not find conversation: '' @ js_String conversationName))])
            | Some fr \<Rightarrow>
                io_then (await_unit R (ElementClick fr))
               (io_then (await_unit R (WaitForTimeout p 500))
               (io_return (JObj [(''success'', JBool True)]))))))))))
       (\<lambda>error. io_return (JObj [(''success'', JBool False), (''error'', JStr (String_error error))]))"

definition sendMessage :: "runtime \<Rightarrow> jsval \<Rightarrow> jsval \<Rightarrow> jsval io" where
  "sendMessage R conversationName message =
     io_catch
       (io_bind (ensureMessengerOpen R) (\<lambda>messengerStatus.
        if \<not> js_truthy (js_get messengerStatus ''success'') then
          io_return (JObj [(''success'', JBool False), (''error'', js_get messengerStatus ''error'')])
        else
          io_bind (openConversation R conversationName) (\<lambda>openResult.
          if \<not> js_truthy (js_get openResult ''success'') then io_return openResult
          else
            io_bind (getPage R) (\<lambda>p.
            io_bind (await_element R (Query p (JStr messageInput))) (\<lambda>found.
            case found of
              None \<Rightarrow>
                io_return (JObj [(''success'', JBool False), (''error'', JStr ''Could not find message input'')])
            | Some mi \<Rightarrow>
                io_then (await_unit R (ElementClick mi))
               (io_then (await_unit R (ElementFill mi message))
               (io_then (await_unit R (KeyboardPress p ''Enter''))
               (io_then (await_unit R (WaitForTimeout p 500))
               (io_return (JObj [(''success'', JBool True)]))))))))))
       (\<lambda>error. io_return (JObj [(''success'', JBool False), (''error'', JStr (String_error error))]))"

text \<open>
  \<^verbatim>\<open>ToNumber\<close>, and \<^verbatim>\<open>rows.slice(k)\<close> for an integer \<open>k\<close>: a negative \<open>k\<close> counts
  from the end.
\<close>

fun js_to_number :: "runtime \<Rightarrow> jsval \<Rightarrow> int option" where
  "js_to_number R JUndefined = None"
| "js_to_number R JNull = Some 0"
| "js_to_number R (JBool b) = Some (if b then 1 else 0)"
| "js_to_number R (JNum n) = Some n"
| "js_to_number R (JStr s) = string_to_number R s"
| "js_to_number R (JArr xs) = string_to_number R (js_String (JArr xs))"
| "js_to_number R (JObj fs) = None"

definition js_slice_from :: "int \<Rightarrow> 'a list \<Rightarrow> 'a list" where
  "js_slice_from k xs =
     (if k < 0 then drop (nat (max (int (length xs) + k) 0)) xs else drop (nat k) xs)"

text \<open>
  The callback of \<^verbatim>\<open>readMessages\<close>:
  \<^verbatim>\<open>rows.slice(-limit).map(text or '').filter(Boolean)\<close>; a NaN start is 0.
\<close>

definition message_texts :: "runtime \<Rightarrow> jsval \<Rightarrow> dom_row list \<Rightarrow> string list" where
  "message_texts R limit rows =
     filter (\<lambda>t. t \<noteq> [])
       (map (\<lambda>row. case row_text row of None \<Rightarrow> [] | Some t \<Rightarrow> js_trim t)
          (js_slice_from (case js_to_number R limit of None \<Rightarrow> 0 | Some n \<Rightarrow> - n) rows))"

definition readMessages :: "runtime \<Rightarrow> jsval \<Rightarrow> jsval io" where
  "readMessages R count =
     io_catch
       (io_bind (ensureMessengerOpen R) (\<lambda>messengerStatus.
        if \<not> js_truthy (js_get messengerStatus ''success'') then
          io_return (JObj [(''messages'', JArr []), (''error'', js_get messengerStatus ''error'')])
        else
          io_bind (getPage R) (\<lambda>p.
          io_bind (await_rows R (QueryAll p messageList)) (\<lambda>rows.
          io_return (JObj [(''messages'',
            JArr (map JStr (message_texts R (default_arg count (JNum 20)) rows)))])))))
       (\<lambda>error. io_return (JObj [(''messages'', JArr []), (''error'', JStr (String_error error))]))"

definition sendFile :: "runtime \<Rightarrow> jsval \<Rightarrow> jsval \<Rightarrow> jsval io" where
  "sendFile R conversationName filePath =
     io_catch
       (io_bind (ensureMessengerOpen R) (\<lambda>messengerStatus.
        if \<not> js_truthy (js_get messengerStatus ''success'') then
          io_return (JObj [(''success'', JBool False), (''error'', js_get messengerStatus ''error'')])
        else
          io_bind (openConversation R conversationName) (\<lambda>openResult.
          if \<not> js_truthy (js_get openResult ''success'') then io_return openResult
          else
            io_bind (getPage R) (\<lambda>p.
            io_bind (await_element R (Query p (JStr attachButton))) (\<lambda>attach.
            io_then (case attach of Some ab \<Rightarrow> await_unit R (ElementClick ab) | None \<Rightarrow> io_return ())
           (io_bind (await_element R (Query p (JStr fileInput))) (\<lambda>found.
            case found of
              None \<Rightarrow>
                io_return (JObj [(''success'', JBool False), (''error'', JStr ''Could not find file input'')])
            | Some fi \<Rightarrow>
                io_then (await_unit R (ElementSetInputFiles fi filePath))
               (io_then (await_unit R (WaitForTimeout p 1000))
               (io_then (await_unit R (KeyboardPress p ''Enter''))
               (io_then (await_unit R (WaitForTimeout p 1000))
               (io_return (JObj [(''success'', JBool True)]))))))))))))
       (\<lambda>error. io_return (JObj [(''success'', JBool False), (''error'', JStr (String_error error))]))"

text \<open>
  \<^verbatim>\<open>await nameEl?.textContent() || undefined\<close>: undefined without an element, and for a
  null or empty text.
\<close>

definition getConversationInfo :: "runtime \<Rightarrow> jsval io" where
  "getConversationInfo R =
     io_catch
       (io_bind (ensureMessengerOpen R) (\<lambda>messengerStatus.
        if \<not> js_truthy (js_get messengerStatus ''success'') then
          io_return (JObj [(''error'', js_get messengerStatus ''error'')])
        else
          io_bind (getPage R) (\<lambda>p.
          io_bind (await_element R (Query p (JStr conversationHeader))) (\<lambda>nameEl.
          io_bind (case nameEl of
                     None \<Rightarrow> io_return JUndefined
                   | Some el \<Rightarrow>
                       io_bind (await_text R (ElementTextContent el)) (\<lambda>text.
                       io_return (case text of
                                    None \<Rightarrow> JUndefined
                                  | Some t \<Rightarrow> if t = [] then JUndefined else JStr t))) (\<lambda>name.
          io_return (JObj [(''name'', name),
            (''participants'', if js_truthy name then JArr [name] else JArr [])]))))))
       (\<lambda>error. io_return (JObj [(''error'', JStr (String_error error))]))"

section \<open>Tool dispatcher\<close>

text \<open>The declared tools: the name and the required fields of each input schema.\<close>

definition TOOLS :: "(string \<times> string list) list" where
  "TOOLS =
     [(''messenger_list_conversations'', []),
      (''messenger_search_conversation'', [''query'']),
      (''messenger_send_message'', [''conversationName'', ''message'']),
      (''messenger_read_messages'', []),
      (''messenger_send_file'', [''conversationName'', ''filePath'']),
      (''messenger_get_info'', []),
      (''web_navigate'', [''url'']),
      (''web_screenshot'', []),
      (''web_click'', [''selector'']),
      (''web_type'', [''selector'', ''text'']),
      (''web_extract_text'', []),
      (''web_execute_js'', [''script'']),
      (''web_wait_for'', [''selector'']),
      (''web_get_url'', []),
      (''web_accessibility_snapshot'', []),
      (''browser_close'', [])]"

datatype ErrorCode = MethodNotFound | InternalError

datatype McpError = McpError ErrorCode string

text \<open>
  \<^verbatim>\<open>request.params.arguments\<close>: an object, or undefined when the request carries none.
  Reading a property of undefined raises a TypeError; reading an absent property of an
  object gives undefined. The casts \<^verbatim>\<open>(args as {...})\<close> check nothing.
\<close>

type_synonym arguments = "(string \<times> jsval) list option"

definition read_arg :: "arguments \<Rightarrow> string \<Rightarrow> jsval io" where
  "read_arg args k =
     (case args of
        None \<Rightarrow>
          io_throw (JsError ''TypeError''
            (''Cannot read properties of undefined (reading '' @ [CHR 0x27] @ k @ [CHR 0x27] @ '')''))
      | Some fs \<Rightarrow> io_return (js_get (JObj fs) k))"

text \<open>The \<^verbatim>\<open>switch (name)\<close>: the handler call of each case, \<open>None\<close> for the default case.\<close>

definition tool_case :: "runtime \<Rightarrow> string \<Rightarrow> arguments \<Rightarrow> (jsval io) option" where
  "tool_case R name args =
     (if name = ''messenger_list_conversations'' then Some (listConversations R)
      else if name = ''messenger_search_conversation'' then
        Some (io_bind (read_arg args ''query'') (\<lambda>query. searchConversation R query))
      else if name = ''messenger_send_message'' then
        Some (io_bind (read_arg args ''conversationName'') (\<lambda>conversationName.
              io_bind (read_arg args ''message'') (\<lambda>message.
              sendMessage R conversationName message)))
      else if name = ''messenger_read_messages'' then
        Some (io_bind (read_arg args ''count'') (\<lambda>count. readMessages R count))
      else if name = ''messenger_send_file'' then
        Some (io_bind (read_arg args ''conversationName'') (\<lambda>conversationName.
              io_bind (read_arg args ''filePath'') (\<lambda>filePath.
              sendFile R conversationName filePath)))
      else if name = ''messenger_get_info'' then Some (getConversationInfo R)
      else if name = ''web_navigate'' then
        Some (io_bind (read_arg args ''url'') (\<lambda>url. navigate R url))
      else if name = ''web_screenshot'' then
        Some (io_bind (read_arg args ''fullPage'') (\<lambda>fullPage. screenshot R fullPage))
      else if name = ''web_click'' then
        Some (io_bind (read_arg args ''selector'') (\<lambda>selector. click R selector))
      else if name = ''web_type'' then
        Some (io_bind (read_arg args ''selector'') (\<lambda>selector.
              io_bind (read_arg args ''text'') (\<lambda>text.
              type R selector text)))
      else if name = ''web_extract_text'' then
        Some (io_bind (read_arg args ''selector'') (\<lambda>selector. extractText R selector))
      else if name = ''web_execute_js'' then
        Some (io_bind (read_arg args ''script'') (\<lambda>script. executeJs R script))
      else if name = ''web_wait_for'' then
        Some (io_bind (read_arg args ''selector'') (\<lambda>selector.
              io_bind (read_arg args ''timeout'') (\<lambda>timeout.
              waitFor R selector timeout)))
      else if name = ''web_get_url'' then Some (getCurrentUrl R)
      else if name = ''web_accessibility_snapshot'' then Some (getAccessibilitySnapshot R)
      else if name = ''browser_close'' then
        Some (io_then (close R) (io_return (JObj [(''success'', JBool True)])))
      else None)"

text \<open>
  The handler of a tool call. The default case throws \<^verbatim>\<open>McpError(MethodNotFound)\<close>,
  which the \<^verbatim>\<open>catch\<close> rethrows as it is; any other thrown error becomes
  \<^verbatim>\<open>McpError(InternalError)\<close> with the error's message. On success the returned content
  is the JSON text of the result, given here as the result value itself.
\<close>

definition callTool :: "runtime \<Rightarrow> string \<Rightarrow> arguments \<Rightarrow> state \<Rightarrow> (McpError + jsval) \<times> state" where
  "callTool R name args s =
     (case tool_case R name args of
        None \<Rightarrow> (Inl (McpError MethodNotFound (''Unknown tool: '' @ name)), s)
      | Some handler \<Rightarrow>
          (case handler s of
             (Inl error, s') \<Rightarrow>
               (Inl (McpError InternalError (''Tool execution failed: '' @ err_message error)), s')
           | (Inr result, s') \<Rightarrow> (Inr result, s')))"

section \<open>A call suspended at its first await\<close>

text \<open>
  An asynchronous function runs until an \<^verbatim>\<open>await\<close> whose promise is pending; other
  handlers run before it is resumed. The handler of a tool call neither queues nor locks:
  it awaits the tool function directly. On a session without a page the first await of
  every tool is the engine launch in \<^verbatim>\<open>initialize\<close>; what \<^verbatim>\<open>initialize\<close> does up to
  that await, and what it does when resumed with the launched engine, are its two parts.
\<close>

definition init_first :: "runtime \<Rightarrow> Browser io" where
  "init_first R = perform (r_browser R) GotBrowser (ChromiumLaunch (channel R) (headless (cfg R)))"

definition init_rest :: "runtime \<Rightarrow> Browser \<Rightarrow> unit io" where
  "init_rest R b =
     io_then (set_browser b)
       (io_bind
         (case userDataDir (cfg R) of
            Some dir \<Rightarrow>
              if dir \<noteq> [] then
                io_bind (perform (r_context R) GotContext
                           (LaunchPersistentContext dir (channel R) (headless (cfg R))))
                  (\<lambda>c. io_then (set_context c)
                    (\<lambda>s. (case pages_of R (trace s) c of
                             p # ps \<Rightarrow> io_return p
                           | [] \<Rightarrow> perform (r_page R) GotPage (NewPage c)) s))
              else
                io_bind (perform (r_context R) GotContext (NewContext b))
                  (\<lambda>c. io_then (set_context c) (perform (r_page R) GotPage (NewPage c)))
          | None \<Rightarrow>
              io_bind (perform (r_context R) GotContext (NewContext b))
                (\<lambda>c. io_then (set_context c) (perform (r_page R) GotPage (NewPage c))))
         (\<lambda>p. io_then (set_page p) (set_timeouts R p)))"

text \<open>
  \<^verbatim>\<open>navigate\<close> resumed after the launch it was suspended at: the rest of
  \<^verbatim>\<open>initialize\<close>, the return of \<^verbatim>\<open>getPage\<close>, and the body of \<^verbatim>\<open>navigate\<close> inside its
  \<^verbatim>\<open>try\<close>.
\<close>

definition navigate_after_launch :: "runtime \<Rightarrow> jsval \<Rightarrow> Browser \<Rightarrow> jsval io" where
  "navigate_after_launch R url b =
     io_catch
       (io_bind (io_then (init_rest R b) read_page) (\<lambda>p.
        io_then (await_unit R (Goto p url))
       (io_then (await_unit R (WaitForLoadState p ''networkidle''))
       (io_bind (await_string R (Title p)) (\<lambda>title.
        io_return (JObj [(''success'', JBool True), (''title'', JStr title)]))))))
       (\<lambda>error. io_return (JObj [(''success'', JBool False), (''error'', JStr (String_error error))]))"

section \<open>Classifying requests, and sample environments\<close>

text \<open>The requests \<^verbatim>\<open>initialize\<close> makes: starting the engine, a context and a page.\<close>

fun is_launch_call :: "call \<Rightarrow> bool" where
  "is_launch_call (ChromiumLaunch ch hl) = True"
| "is_launch_call (LaunchPersistentContext dir ch hl) = True"
| "is_launch_call (NewContext b) = True"
| "is_launch_call (NewPage c) = True"
| "is_launch_call (SetDefaultTimeout p n) = True"
| "is_launch_call (SetDefaultNavigationTimeout p n) = True"
| "is_launch_call c = False"

text \<open>
  The requests of \<^verbatim>\<open>ensureMessengerOpen\<close>: those of \<^verbatim>\<open>initialize\<close>, the navigation to
  the application, and the look-up of the login marker.
\<close>

fun is_setup_call :: "call \<Rightarrow> bool" where
  "is_setup_call (Goto p url) = True"
| "is_setup_call (WaitForLoadState p st) = True"
| "is_setup_call (Query p sel) = (sel = JStr loginMarker)"
| "is_setup_call c = is_launch_call c"

text \<open>
  The requests of the last stage of \<^verbatim>\<open>sendMessage\<close>: the look-up of the message input,
  and a key press. (The message input is clicked and filled through the handle that this
  look-up returns.)
\<close>

fun is_message_stage_call :: "call \<Rightarrow> bool" where
  "is_message_stage_call (Query p sel) = (sel = JStr messageInput)"
| "is_message_stage_call (KeyboardPress p k) = True"
| "is_message_stage_call c = False"

text \<open>
  Facts of the environment. No request is ever rejected; a selector is found by every
  look-up, on any page at any time; a selector is found by none.
\<close>

definition never_rejects :: "runtime \<Rightarrow> bool" where
  "never_rejects R =
     (\<forall>h c. \<not> isl (r_unit R h c) \<and> \<not> isl (r_browser R h c) \<and> \<not> isl (r_context R h c) \<and>
            \<not> isl (r_page R h c) \<and> \<not> isl (r_element R h c) \<and> \<not> isl (r_string R h c) \<and>
            \<not> isl (r_text R h c) \<and> \<not> isl (r_rows R h c) \<and> \<not> isl (r_value R h c))"

definition finds :: "runtime \<Rightarrow> string \<Rightarrow> bool" where
  "finds R sel = (\<forall>h p. \<exists>el. r_element R h (Query p (JStr sel)) = Inr (Some el))"

definition lacks :: "runtime \<Rightarrow> string \<Rightarrow> bool" where
  "lacks R sel = (\<forall>h p. r_element R h (Query p (JStr sel)) = Inr None)"

text \<open>
  A sample environment in which every request resolves: one engine, one context, one page
  showing the application, and \<^verbatim>\<open>page.$\<close> finding exactly the selectors listed in
  \<open>present\<close>.
\<close>

definition sample_config :: config where
  "sample_config =
     \<lparr>browser_type = ''msedge'', userDataDir = None, headless = False,
      timeouts_navigation = 30000, timeouts_action = 10000,
      messenger_url = ''https://www.messenger.com''\<rparr>"

definition sample_runtime :: "string list \<Rightarrow> runtime" where
  "sample_runtime present =
     \<lparr>cfg = sample_config,
      r_unit = (\<lambda>h c. Inr ()),
      r_browser = (\<lambda>h c. Inr (Browser 1)),
      r_context = (\<lambda>h c. Inr (BrowserContext 1)),
      r_page = (\<lambda>h c. Inr (Page 1)),
      r_element = (\<lambda>h c. case c of
                      Query p (JStr sel) \<Rightarrow>
                        Inr (if sel \<in> set present then Some (ElementHandle (length h)) else None)
                    | _ \<Rightarrow> Inr None),
      r_string = (\<lambda>h c. Inr ''Messenger''),
      r_text = (\<lambda>h c. Inr None),
      r_rows = (\<lambda>h c. Inr []),
      r_value = (\<lambda>h c. Inr JNull),
      url_of = (\<lambda>h p. ''https://www.messenger.com/''),
      pages_of = (\<lambda>h c. [Page 1]),
      context_of = (\<lambda>p. BrowserContext 1),
      string_to_number = (\<lambda>s. None),
      number_to_string = (\<lambda>q. ''0.5'')\<rparr>"

text \<open>The same, except that no browsing context can be created.\<close>

definition no_context_runtime :: runtime where
  "no_context_runtime =
     (sample_runtime [])\<lparr>r_context := (\<lambda>h c. Inl (JsError ''Error'' ''Target closed''))\<rparr>"

text \<open>The same, with a sidebar of 22 rows, one of them without a name.\<close>

definition crowded_runtime :: runtime where
  "crowded_runtime =
     (sample_runtime [])\<lparr>r_rows := (\<lambda>h c. Inr
        (\<lparr>row_text = None, dir_auto_text = Some '' Ann ''\<rparr> #
         \<lparr>row_text = Some ''x'', dir_auto_text = None\<rparr> #
         replicate 20 \<lparr>row_text = None, dir_auto_text = Some ''Bob''\<rparr>))\<rparr>"

text \<open>
  A page on which the search for any name lists the one conversation "Bob": the search
  input, a first search result and the message input are found, and every option and
  every row reads "Bob".
\<close>

definition bob_runtime :: runtime where
  "bob_runtime =
     (sample_runtime [searchInput, searchOption, messageInput])
       \<lparr>r_text := (\<lambda>h c. Inr (Some ''Bob'')),
        r_rows := (\<lambda>h c. Inr [\<lparr>row_text = Some ''Bob'', dir_auto_text = Some ''Bob''\<rparr>])\<rparr>"

text \<open>
  An environment that numbers the engines, contexts and pages it starts by the number of
  requests made before.
\<close>

definition numbering_runtime :: runtime where
  "numbering_runtime =
     (sample_runtime [])
       \<lparr>r_browser := (\<lambda>h c. Inr (Browser (length h))),
        r_context := (\<lambda>h c. Inr (BrowserContext (length h))),
        r_page := (\<lambda>h c. Inr (Page (length h)))\<rparr>"

definition fresh_state :: state where
  "fresh_state = \<lparr>this_browser = None, this_context = None, this_page = None, trace = []\<rparr>"

definition open_state :: state where
  "open_state =
     \<lparr>this_browser = Some (Browser 1), this_context = Some (BrowserContext 1),
      this_page = Some (Page 1), trace = []\<rparr>"

section \<open>Verification\<close>

subsection \<open>Auxiliary facts\<close>

lemmas io_defs = io_return_def io_throw_def io_bind_def io_then_def io_catch_def
  perform_def notify_def await_unit_def await_element_def await_string_def await_text_def
  await_rows_def await_value_def set_browser_def set_context_def set_page_def set_timeouts_def
  read_page_def page_url_def context_pages_def

lemmas sample_defs = sample_runtime_def sample_config_def no_context_runtime_def
  fresh_state_def open_state_def channel_def

lemma getPage_unfold:
  "getPage R s =
     (case this_page s of Some p \<Rightarrow> (Inr p, s) | None \<Rightarrow> io_then (initialize R) read_page s)"
  by (simp add: getPage_def read_page_def split: option.splits)

lemma initialize_events:
  "initialize R s = (r, s1) \<Longrightarrow>
   \<exists>pre. trace s1 = trace s @ pre \<and> pre \<noteq> [] \<and> list_all (\<lambda>ev. is_launch_call (fst ev)) pre \<and>
     (case r of Inl e \<Rightarrow> this_page s1 = this_page s | Inr u \<Rightarrow> this_page s1 \<noteq> None)"
  by (auto simp: initialize_def io_return_def io_bind_def io_then_def perform_def notify_def
      set_browser_def set_context_def set_page_def set_timeouts_def
      split: sum.splits option.splits if_splits list.splits prod.splits)

lemma getPage_events:
  assumes "getPage R s = (r, s1)"
  shows "\<exists>pre. trace s1 = trace s @ pre \<and> list_all (\<lambda>ev. is_launch_call (fst ev)) pre \<and>
     (case r of
        Inl e \<Rightarrow> this_page s = None \<and> this_page s1 = None \<and> pre \<noteq> []
      | Inr p \<Rightarrow> this_page s1 = Some p \<and> (this_page s \<noteq> None \<longrightarrow> s1 = s))"
proof (cases "this_page s")
  case None
  obtain r0 s0 where i: "initialize R s = (r0, s0)" by (cases "initialize R s")
  from initialize_events [OF i] obtain pre where
    "trace s0 = trace s @ pre" "pre \<noteq> []" "list_all (\<lambda>ev. is_launch_call (fst ev)) pre"
    "case r0 of Inl e \<Rightarrow> this_page s0 = this_page s | Inr u \<Rightarrow> this_page s0 \<noteq> None"
    by blast
  with assms None i show ?thesis
    by (auto simp: getPage_def io_then_def io_bind_def read_page_def split: sum.splits option.splits)
next
  case (Some p)
  with assms show ?thesis by (auto simp: getPage_def read_page_def)
qed

lemma launch_is_setup: "is_launch_call c \<Longrightarrow> is_setup_call c"
  by (cases c) simp_all

lemma ensureMessengerOpen_events:
  assumes "ensureMessengerOpen R s = (r, s1)"
  shows "\<exists>st pre. r = Inr st \<and> trace s1 = trace s @ pre \<and> pre \<noteq> [] \<and>
     list_all (\<lambda>ev. is_setup_call (fst ev)) pre \<and>
     (\<forall>q el. (Query q (JStr loginMarker), GotElement (Some el)) \<in> set pre \<longrightarrow>
        st = JObj [(''success'', JBool False),
          (''error'', JStr ''Please log in to Messenger manually in the browser window, then try again.'')]) \<and>
     (js_truthy (js_get st ''success'') \<longrightarrow> this_page s1 \<noteq> None)"
proof -
  obtain r0 s0 where g: "getPage R s = (r0, s0)" by (cases "getPage R s")
  from getPage_events [OF g] obtain pre where
    pre: "trace s0 = trace s @ pre" "list_all (\<lambda>ev. is_launch_call (fst ev)) pre"
    "case r0 of Inl e \<Rightarrow> this_page s = None \<and> this_page s0 = None \<and> pre \<noteq> []
     | Inr p \<Rightarrow> this_page s0 = Some p \<and> (this_page s \<noteq> None \<longrightarrow> s0 = s)"
    by blast
  have nq: "\<And>q sel r. (Query q sel, r) \<notin> set pre"
    using pre(2) by (auto simp: list_all_iff)
  show ?thesis
    using assms g pre
    by (auto simp: nq ensureMessengerOpen_def io_catch_def io_return_def io_bind_def io_then_def
        perform_def await_unit_def await_element_def page_url_def list_all_iff launch_is_setup
        split: sum.splits option.splits if_splits prod.splits)
qed

lemma never_rejects_facts:
  assumes "never_rejects R"
  shows "r_unit R h c \<noteq> Inl e" and "r_browser R h c \<noteq> Inl e" and "r_context R h c \<noteq> Inl e"
    and "r_page R h c \<noteq> Inl e" and "r_element R h c \<noteq> Inl e"
proof -
  from assms have n: "\<not> isl (r_unit R h c)" "\<not> isl (r_browser R h c)" "\<not> isl (r_context R h c)"
    "\<not> isl (r_page R h c)" "\<not> isl (r_element R h c)"
    by (simp_all add: never_rejects_def)
  show "r_unit R h c \<noteq> Inl e" using n(1) by auto
  show "r_browser R h c \<noteq> Inl e" using n(2) by auto
  show "r_context R h c \<noteq> Inl e" using n(3) by auto
  show "r_page R h c \<noteq> Inl e" using n(4) by auto
  show "r_element R h c \<noteq> Inl e" using n(5) by auto
qed

lemma finds_facts:
  assumes "finds R sel"
  shows "r_element R h (Query p (JStr sel)) \<noteq> Inr None"
    and "r_element R h (Query p (JStr sel)) \<noteq> Inl e"
proof -
  from assms obtain el where "r_element R h (Query p (JStr sel)) = Inr (Some el)"
    unfolding finds_def by blast
  then show "r_element R h (Query p (JStr sel)) \<noteq> Inr None"
    and "r_element R h (Query p (JStr sel)) \<noteq> Inl e"
    by simp_all
qed

lemma lacks_fact: "lacks R sel \<Longrightarrow> r_element R h (Query p (JStr sel)) = Inr None"
  by (simp add: lacks_def)

lemma initialize_resolves:
  assumes "never_rejects R"
  shows "\<exists>s1. initialize R s = (Inr (), s1)"
  by (auto simp: initialize_def io_return_def io_bind_def io_then_def perform_def notify_def
      set_browser_def set_context_def set_page_def set_timeouts_def
      never_rejects_facts [OF assms]
      split: sum.splits option.splits if_splits list.splits prod.splits)

lemma getPage_resolves:
  assumes "never_rejects R"
  shows "\<exists>p s1 pre. getPage R s = (Inr p, s1) \<and> trace s1 = trace s @ pre \<and>
           list_all (\<lambda>ev. is_launch_call (fst ev)) pre \<and> this_page s1 = Some p"
proof (cases "this_page s")
  case None
  from initialize_resolves [OF assms, of s] obtain s1 where i: "initialize R s = (Inr (), s1)" ..
  from initialize_events [OF i] obtain pre where
    "trace s1 = trace s @ pre" "list_all (\<lambda>ev. is_launch_call (fst ev)) pre" "this_page s1 \<noteq> None"
    by auto
  with None i show ?thesis
    by (auto simp: getPage_def io_then_def io_bind_def read_page_def)
next
  case (Some p)
  then show ?thesis by (simp add: getPage_unfold)
qed

lemma ensureMessengerOpen_logged_in:
  assumes "never_rejects R" and "lacks R loginMarker"
  shows "\<exists>s1 pre p. ensureMessengerOpen R s = (Inr (JObj [(''success'', JBool True)]), s1) \<and>
           trace s1 = trace s @ pre \<and> list_all (\<lambda>ev. is_setup_call (fst ev)) pre \<and>
           this_page s1 = Some p"
proof -
  from getPage_resolves [OF assms(1), of s] obtain p s0 pre where
    g: "getPage R s = (Inr p, s0)" and t: "trace s0 = trace s @ pre"
    and l: "list_all (\<lambda>ev. is_launch_call (fst ev)) pre" and p: "this_page s0 = Some p"
    by blast
  from l have "list_all (\<lambda>ev. is_setup_call (fst ev)) pre"
    by (auto simp: list_all_iff launch_is_setup)
  with g t p show ?thesis
    by (auto simp: ensureMessengerOpen_def io_catch_def io_return_def io_bind_def io_then_def
        perform_def await_unit_def await_element_def page_url_def
        never_rejects_facts [OF assms(1)] lacks_fact [OF assms(2)]
        split: sum.splits)
qed


lemma sample_never_rejects: "never_rejects (sample_runtime present)"
  by (simp add: never_rejects_def sample_runtime_def split: call.splits jsval.splits)

lemma sample_finds: "sel \<in> set present \<Longrightarrow> finds (sample_runtime present) sel"
  by (simp add: finds_def sample_runtime_def)

lemma sample_lacks: "sel \<notin> set present \<Longrightarrow> lacks (sample_runtime present) sel"
  by (simp add: lacks_def sample_runtime_def)

subsection \<open>Obtaining the active page twice\<close>

text \<open>
  C9. Obtaining the active page of an initialized session returns the page in the slot and
  leaves the whole state as it was, so a second call returns the same page again and no
  request (in particular no engine launch) is made by either call.
\<close>

theorem getPage_idempotent:
  assumes "isInitialized s"
  shows "\<exists>p. this_page s = Some p \<and> getPage R s = (Inr p, s) \<and>
             getPage R (snd (getPage R s)) = (Inr p, s) \<and>
             new_events s (snd (getPage R (snd (getPage R s)))) = []"
proof -
  from assms obtain p where "this_page s = Some p"
    by (auto simp: isInitialized_def)
  then show ?thesis by (simp add: getPage_unfold new_events_def)
qed

theorem getPage_idempotent_witness:
  "isInitialized open_state \<and>
   (\<exists>p. this_page open_state = Some p \<and>
        getPage (sample_runtime []) open_state = (Inr p, open_state) \<and>
        getPage (sample_runtime []) (snd (getPage (sample_runtime []) open_state)) =
          (Inr p, open_state) \<and>
        new_events open_state
          (snd (getPage (sample_runtime []) (snd (getPage (sample_runtime []) open_state)))) = [])"
proof -
  have h: "isInitialized open_state" by code_simp
  from h getPage_idempotent [OF h] show ?thesis ..
qed

subsection \<open>Unknown tools\<close>

lemma tool_case_unknown: "name \<notin> fst ` set TOOLS \<Longrightarrow> tool_case R name args = None"
  by (simp add: TOOLS_def tool_case_def)

lemma TOOLS_names:
  "fst ` set TOOLS =
     {''messenger_list_conversations'', ''messenger_search_conversation'',
      ''messenger_send_message'', ''messenger_read_messages'', ''messenger_send_file'',
      ''messenger_get_info'', ''web_navigate'', ''web_screenshot'', ''web_click'', ''web_type'',
      ''web_extract_text'', ''web_execute_js'', ''web_wait_for'', ''web_get_url'',
      ''web_accessibility_snapshot'', ''browser_close''}"
  by (simp add: TOOLS_def)

lemma tool_case_known: "name \<in> fst ` set TOOLS \<Longrightarrow> \<exists>h. tool_case R name args = Some h"
  unfolding TOOLS_names by (elim insertE emptyE) (simp_all add: tool_case_def)

lemma no_MethodNotFound:
  assumes "known \<in> fst ` set TOOLS"
  shows "fst (callTool R known args' s') \<noteq> Inl (McpError MethodNotFound text)"
proof -
  from tool_case_known [OF assms] obtain h where "tool_case R known args' = Some h" ..
  then show ?thesis
    by (simp add: callTool_def split: prod.splits sum.splits)
qed

text \<open>
  C3. A name outside the declared tools gets the protocol error MethodNotFound with the
  text "Unknown tool: name"; the state is returned as it was, so no request was made and
  the session is initialized after the call exactly if it was before. No declared tool
  ever answers with MethodNotFound.
\<close>

theorem unknown_tool_rejected:
  assumes "name \<notin> fst ` set TOOLS"
  shows "callTool R name args s = (Inl (McpError MethodNotFound (''Unknown tool: '' @ name)), s) \<and>
         new_events s (snd (callTool R name args s)) = [] \<and>
         isInitialized (snd (callTool R name args s)) = isInitialized s \<and>
         (\<forall>known args' s' text. known \<in> fst ` set TOOLS \<longrightarrow>
            fst (callTool R known args' s') \<noteq> Inl (McpError MethodNotFound text))"
  using tool_case_unknown [OF assms] no_MethodNotFound
  by (simp add: callTool_def new_events_def)

theorem unknown_tool_rejected_witness:
  "''web_list_tabs'' \<notin> fst ` set TOOLS \<and>
   callTool (sample_runtime []) ''web_list_tabs'' (Some []) fresh_state =
     (Inl (McpError MethodNotFound ''Unknown tool: web_list_tabs''), fresh_state) \<and>
   \<not> isInitialized (snd (callTool (sample_runtime []) ''web_list_tabs'' (Some []) fresh_state))"
proof -
  have h: "''web_list_tabs'' \<notin> fst ` set TOOLS"
    by (simp add: TOOLS_def)
  from h unknown_tool_rejected [OF h, of "sample_runtime []" "Some []" fresh_state]
  show ?thesis by (simp add: isInitialized_def fresh_state_def)
qed

subsection \<open>Failing initialization\<close>

lemma ensureMessengerOpen_getPage_fail:
  "getPage R s = (Inl e, s') \<Longrightarrow>
   ensureMessengerOpen R s =
     (Inr (JObj [(''success'', JBool False), (''error'', JStr (String_error e))]), s')"
  by (simp add: ensureMessengerOpen_def io_catch_def io_bind_def io_return_def)

lemma web_tools_getPage_fail:
  assumes "getPage R s = (Inl e, s')"
  shows "navigate R url s = (Inr (JObj [(''success'', JBool False), (''error'', JStr (String_error e))]), s')"
    and "screenshot R fp s = (Inr (JObj [(''success'', JBool False), (''error'', JStr (String_error e))]), s')"
    and "click R sel s = (Inr (JObj [(''success'', JBool False), (''error'', JStr (String_error e))]), s')"
    and "type R sel txt s = (Inr (JObj [(''success'', JBool False), (''error'', JStr (String_error e))]), s')"
    and "extractText R sel s = (Inr (JObj [(''success'', JBool False), (''error'', JStr (String_error e))]), s')"
    and "executeJs R scr s = (Inr (JObj [(''success'', JBool False), (''error'', JStr (String_error e))]), s')"
    and "waitFor R sel tmo s = (Inr (JObj [(''success'', JBool False), (''error'', JStr (String_error e))]), s')"
    and "getCurrentUrl R s = (Inr (JObj [(''url'', JStr []), (''error'', JStr (String_error e))]), s')"
    and "getAccessibilitySnapshot R s = (Inr (JObj [(''success'', JBool False), (''error'', JStr (String_error e))]), s')"
  using assms
  by (simp_all add: navigate_def screenshot_def click_def type_def extractText_def executeJs_def
      waitFor_def getCurrentUrl_def getAccessibilitySnapshot_def
      io_catch_def io_bind_def io_return_def)

lemma messenger_tools_getPage_fail:
  assumes "getPage R s = (Inl e, s')"
  shows "listConversations R s = (Inr (JObj [(''conversations'', JArr []), (''error'', JStr (String_error e))]), s')"
    and "searchConversation R q s = (Inr (JObj [(''results'', JArr []), (''error'', JStr (String_error e))]), s')"
    and "sendMessage R c m s = (Inr (JObj [(''success'', JBool False), (''error'', JStr (String_error e))]), s')"
    and "readMessages R n s = (Inr (JObj [(''messages'', JArr []), (''error'', JStr (String_error e))]), s')"
    and "sendFile R c f s = (Inr (JObj [(''success'', JBool False), (''error'', JStr (String_error e))]), s')"
    and "getConversationInfo R s = (Inr (JObj [(''error'', JStr (String_error e))]), s')"
  using ensureMessengerOpen_getPage_fail [OF assms]
  by (simp_all add: listConversations_def searchConversation_def sendMessage_def readMessages_def
      sendFile_def getConversationInfo_def io_catch_def io_bind_def io_return_def)

lemma getPage_relaunch:
  assumes "this_page s = None"
  shows "\<exists>r evs. new_events s (snd (getPage R s)) =
           (ChromiumLaunch (channel R) (headless (cfg R)), r) # evs"
  using assms
  by (auto simp: getPage_def initialize_def io_return_def io_bind_def io_then_def perform_def
      notify_def set_browser_def set_context_def set_page_def set_timeouts_def read_page_def
      new_events_def
      split: sum.splits option.splits if_splits list.splits prod.splits)

text \<open>
  C4 (as amended). When initialization fails inside \<^verbatim>\<open>getPage\<close>, the page slot was and
  stays empty, so the session reports uninitialized and the next \<^verbatim>\<open>getPage\<close> starts
  over with a launch of the engine; every declared tool that obtains the page (all but
  \<^verbatim>\<open>browser_close\<close>) returns a result carrying the error text, whatever its argument
  object.
\<close>

theorem initialization_failure:
  assumes "getPage R s = (Inl e, s')"
    and "name \<in> fst ` set TOOLS" and "name \<noteq> ''browser_close''"
  shows "this_page s = None \<and> \<not> isInitialized s' \<and>
         (\<exists>r evs. new_events s' (snd (getPage R s')) =
            (ChromiumLaunch (channel R) (headless (cfg R)), r) # evs) \<and>
         (\<exists>r. callTool R name (Some fs) s = (Inr r, s') \<and>
              js_get r ''error'' = JStr (String_error e))"
proof -
  from getPage_events [OF assms(1)]
  have p: "this_page s = None" "this_page s' = None" by auto
  have "\<exists>r. callTool R name (Some fs) s = (Inr r, s') \<and> js_get r ''error'' = JStr (String_error e)"
    using assms(2,3) unfolding TOOLS_names
    by (elim insertE emptyE)
      (simp_all add: callTool_def tool_case_def read_arg_def io_bind_def io_return_def
        web_tools_getPage_fail [OF assms(1)] messenger_tools_getPage_fail [OF assms(1)])
  with p getPage_relaunch [OF p(2), of R] show ?thesis
    by (simp add: isInitialized_def)
qed

lemma no_context_getPage:
  "getPage no_context_runtime fresh_state =
     (Inl (JsError ''Error'' ''Target closed''),
      \<lparr>this_browser = Some (Browser 1), this_context = None, this_page = None,
       trace = [(ChromiumLaunch (Some ''msedge'') False, GotBrowser (Browser 1)),
                (NewContext (Browser 1), Threw (JsError ''Error'' ''Target closed''))]\<rparr>)"
  by (simp add: getPage_def initialize_def io_defs sample_defs)

theorem initialization_failure_witness:
  "(getPage no_context_runtime fresh_state =
      (Inl (JsError ''Error'' ''Target closed''),
       \<lparr>this_browser = Some (Browser 1), this_context = None, this_page = None,
        trace = [(ChromiumLaunch (Some ''msedge'') False, GotBrowser (Browser 1)),
                 (NewContext (Browser 1), Threw (JsError ''Error'' ''Target closed''))]\<rparr>) \<and>
    ''web_navigate'' \<in> fst ` set TOOLS \<and> ''web_navigate'' \<noteq> ''browser_close'') \<and>
   this_page fresh_state = None \<and>
   \<not> isInitialized
     \<lparr>this_browser = Some (Browser 1), this_context = None, this_page = None,
      trace = [(ChromiumLaunch (Some ''msedge'') False, GotBrowser (Browser 1)),
               (NewContext (Browser 1), Threw (JsError ''Error'' ''Target closed''))]\<rparr> \<and>
   callTool no_context_runtime ''web_navigate'' (Some [(''url'', JStr ''https://example.com'')])
       fresh_state =
     (Inr (JObj [(''success'', JBool False), (''error'', JStr ''Error: Target closed'')]),
      \<lparr>this_browser = Some (Browser 1), this_context = None, this_page = None,
       trace = [(ChromiumLaunch (Some ''msedge'') False, GotBrowser (Browser 1)),
                (NewContext (Browser 1), Threw (JsError ''Error'' ''Target closed''))]\<rparr>)"
proof -
  have n: "''web_navigate'' \<in> fst ` set TOOLS" by (simp add: TOOLS_def)
  have d: "''web_navigate'' \<noteq> ''browser_close''" by simp
  have c: "callTool no_context_runtime ''web_navigate'' (Some [(''url'', JStr ''https://example.com'')])
       fresh_state =
     (Inr (JObj [(''success'', JBool False), (''error'', JStr ''Error: Target closed'')]),
      \<lparr>this_browser = Some (Browser 1), this_context = None, this_page = None,
       trace = [(ChromiumLaunch (Some ''msedge'') False, GotBrowser (Browser 1)),
                (NewContext (Browser 1), Threw (JsError ''Error'' ''Target closed''))]\<rparr>)"
    by code_simp
  note t = initialization_failure [OF no_context_getPage n d]
  from no_context_getPage n d conjunct1 [OF t] conjunct1 [OF conjunct2 [OF t]] c
  show ?thesis by (intro conjI)
qed

text \<open>
  C4 (as stated) fails: the engine starts, creating the context fails; the call returns an
  error result, and the engine handle stays in its slot while the page slot is empty.
\<close>

theorem initialization_failure_counterexample:
  "callTool no_context_runtime ''web_get_url'' (Some []) fresh_state =
     (Inr (JObj [(''url'', JStr []), (''error'', JStr ''Error: Target closed'')]),
      \<lparr>this_browser = Some (Browser 1), this_context = None, this_page = None,
       trace = [(ChromiumLaunch (Some ''msedge'') False, GotBrowser (Browser 1)),
                (NewContext (Browser 1), Threw (JsError ''Error'' ''Target closed''))]\<rparr>)"
  by (simp add: callTool_def tool_case_def getCurrentUrl_def getPage_def initialize_def
      io_defs sample_defs String_error_def)

subsection \<open>Switching the active page\<close>

text \<open>
  When the guard of \<^verbatim>\<open>switchTab\<close> holds (the index compares below zero, or at least the
  number of open pages), the call returns the error result and leaves the state as
  \<^verbatim>\<open>getPage\<close> left it: on an initialized session the state before the call.
\<close>

lemma switchTab_guarded:
  assumes "getPage R s = (Inr p, s1)"
    and "below_zero index \<or> at_least index (length (pages_of R (trace s1) (context_of R p)))"
  shows "switchTab R index s =
           (Inr (JObj [(''success'', JBool False),
                       (''error'', JStr (''Invalid tab index: '' @ number_text R index))]), s1) \<and>
         this_page s1 = Some p \<and>
         (isInitialized s \<longrightarrow> s1 = s \<and> this_page s = Some p)"
  using assms
  by (auto simp: switchTab_def io_catch_def io_bind_def io_return_def context_pages_def
      getPage_unfold read_page_def isInitialized_def io_then_def split: option.splits sum.splits prod.splits)

text \<open>
  C8 fails for an index that is not a number. Both comparisons of the guard are false for
  \<^verbatim>\<open>NaN\<close>, so the guard is passed; \<^verbatim>\<open>pages[NaN]\<close> is \<^verbatim>\<open>undefined\<close>, which
  \<^verbatim>\<open>setActivePage\<close> stores in the active-page slot before the call on it throws. The
  result is an error result, but the slot that held page 1 before the call is empty after it.
\<close>

theorem switchTab_NaN:
  "\<not> below_zero NaN \<and> \<not> at_least NaN (length (pages_of (sample_runtime []) (trace open_state)
        (context_of (sample_runtime []) (Page 1)))) \<and>
   this_page open_state = Some (Page 1) \<and>
   switchTab (sample_runtime []) NaN open_state =
     (Inr (JObj [(''success'', JBool False),
        (''error'', JStr (''TypeError: Cannot read properties of undefined (reading '' @
           [CHR 0x27] @ ''setDefaultTimeout'' @ [CHR 0x27] @ '')''))]),
      \<lparr>this_browser = Some (Browser 1), this_context = Some (BrowserContext 1),
       this_page = None, trace = []\<rparr>)"
  by code_simp

subsection \<open>Listing conversations\<close>

lemma conversation_names_bound:
  "length (conversation_names rows) \<le> 20 \<and> [] \<notin> set (conversation_names rows)"
proof -
  have "length (conversation_names rows) \<le> length (take 20 rows)"
    unfolding conversation_names_def
    by (rule order_trans [OF length_filter_le]) simp
  then show ?thesis by (simp add: conversation_names_def)
qed

lemma listConversations_outcomes:
  assumes "listConversations R s = (r, s')"
  shows "(\<exists>v. r = Inr (JObj [(''conversations'', JArr []), (''error'', v)]) \<and>
            (\<forall>p rows. (QueryAll p conversationList, GotRows rows) \<notin> set (new_events s s'))) \<or>
         (\<exists>p rows pre. r = Inr (JObj [(''conversations'', JArr (map JStr (conversation_names rows)))]) \<and>
            new_events s s' = pre @ [(QueryAll p conversationList, GotRows rows)] \<and>
            list_all (\<lambda>ev. is_setup_call (fst ev)) pre)"
proof -
  obtain r0 s0 where e: "ensureMessengerOpen R s = (r0, s0)" by (cases "ensureMessengerOpen R s")
  from ensureMessengerOpen_events [OF e] obtain st pre where
    pre: "r0 = Inr st" "trace s0 = trace s @ pre" "list_all (\<lambda>ev. is_setup_call (fst ev)) pre"
    "js_truthy (js_get st ''success'') \<longrightarrow> this_page s0 \<noteq> None"
    by blast
  have nq: "\<And>q sel r. (QueryAll q sel, r) \<notin> set pre"
    using pre(3) by (auto simp: list_all_iff)
  show ?thesis
    using assms e pre
    by (auto simp: nq listConversations_def io_catch_def io_return_def io_bind_def
        perform_def await_rows_def getPage_unfold new_events_def
        split: sum.splits option.splits if_splits prod.splits)
qed

text \<open>
  C10. \<^verbatim>\<open>listConversations\<close> always returns a result whose conversation list has at most
  20 names, none of them empty; when the sidebar rows were read, the names are those of the
  first 20 rows, trimmed, with the empty ones dropped.
\<close>

theorem listConversations_at_most_20:
  "\<exists>r s' names. listConversations R s = (Inr r, s') \<and>
     js_get r ''conversations'' = JArr (map JStr names) \<and>
     length names \<le> 20 \<and> [] \<notin> set names \<and>
     (\<forall>p rows. (QueryAll p conversationList, GotRows rows) \<in> set (new_events s s') \<longrightarrow>
        names = filter (\<lambda>name. name \<noteq> [])
                  (map (\<lambda>row. case dir_auto_text row of None \<Rightarrow> [] | Some t \<Rightarrow> js_trim t)
                     (take 20 rows)))"
proof -
  obtain r s' where l: "listConversations R s = (r, s')" by (cases "listConversations R s")
  from listConversations_outcomes [OF l] show ?thesis
  proof
    assume "\<exists>v. r = Inr (JObj [(''conversations'', JArr []), (''error'', v)]) \<and>
            (\<forall>p rows. (QueryAll p conversationList, GotRows rows) \<notin> set (new_events s s'))"
    with l show ?thesis by auto
  next
    assume "\<exists>p rows pre. r = Inr (JObj [(''conversations'', JArr (map JStr (conversation_names rows)))]) \<and>
            new_events s s' = pre @ [(QueryAll p conversationList, GotRows rows)] \<and>
            list_all (\<lambda>ev. is_setup_call (fst ev)) pre"
    then obtain p rows pre where
      o: "r = Inr (JObj [(''conversations'', JArr (map JStr (conversation_names rows)))])"
         "new_events s s' = pre @ [(QueryAll p conversationList, GotRows rows)]"
         "list_all (\<lambda>ev. is_setup_call (fst ev)) pre"
      by blast
    have nq: "\<And>q sel r. (QueryAll q sel, r) \<notin> set pre"
      using o(3) by (auto simp: list_all_iff)
    from conversation_names_bound [of rows] l o(1,2) nq show ?thesis
      by (auto simp: conversation_names_def)
  qed
qed

lemma crowded_run:
  "listConversations crowded_runtime open_state =
     (Inr (JObj [(''conversations'', JArr (map JStr (''Ann'' # replicate 18 ''Bob'')))]),
      open_state\<lparr>trace := [(Query (Page 1) (JStr loginMarker), GotElement None),
        (QueryAll (Page 1) conversationList, GotRows
          (\<lparr>row_text = None, dir_auto_text = Some '' Ann ''\<rparr> #
           \<lparr>row_text = Some ''x'', dir_auto_text = None\<rparr> #
           replicate 20 \<lparr>row_text = None, dir_auto_text = Some ''Bob''\<rparr>))]\<rparr>)"
  by code_simp

theorem listConversations_at_most_20_witness:
  "listConversations crowded_runtime open_state =
     (Inr (JObj [(''conversations'', JArr (map JStr (''Ann'' # replicate 18 ''Bob'')))]),
      open_state\<lparr>trace := [(Query (Page 1) (JStr loginMarker), GotElement None),
        (QueryAll (Page 1) conversationList, GotRows
          (\<lparr>row_text = None, dir_auto_text = Some '' Ann ''\<rparr> #
           \<lparr>row_text = Some ''x'', dir_auto_text = None\<rparr> #
           replicate 20 \<lparr>row_text = None, dir_auto_text = Some ''Bob''\<rparr>))]\<rparr>) \<and>
   (\<exists>r s' names. listConversations crowded_runtime open_state = (Inr r, s') \<and>
     js_get r ''conversations'' = JArr (map JStr names) \<and>
     length names \<le> 20 \<and> [] \<notin> set names \<and>
     (\<forall>p rows. (QueryAll p conversationList, GotRows rows) \<in> set (new_events open_state s') \<longrightarrow>
        names = filter (\<lambda>name. name \<noteq> [])
                  (map (\<lambda>row. case dir_auto_text row of None \<Rightarrow> [] | Some t \<Rightarrow> js_trim t)
                     (take 20 rows))))"
  using crowded_run listConversations_at_most_20 [of crowded_runtime open_state] ..

subsection \<open>Sending a message\<close>

lemma ensureMessengerOpen_success:
  assumes "ensureMessengerOpen R s = (r, s1)"
  shows "\<exists>st pre. r = Inr st \<and> trace s1 = trace s @ pre \<and> pre \<noteq> [] \<and>
     list_all (\<lambda>ev. is_setup_call (fst ev)) pre \<and>
     (js_truthy (js_get st ''success'') \<longrightarrow> (\<exists>p. this_page s1 = Some p))"
  using ensureMessengerOpen_events [OF assms] by auto

lemmas open_defs = openConversation_def getPage_unfold io_catch_def io_return_def io_bind_def
  io_then_def perform_def await_unit_def await_element_def searchInput_def searchOption_def
  messageInput_def new_events_def

lemma openConversation_returns:
  assumes "this_page s = Some p" and "openConversation R name s = (r, s')"
  shows "\<exists>st evs. r = Inr st \<and> trace s' = trace s @ evs \<and> this_page s' = Some p"
  using assms
  by (auto simp: open_defs split: sum.splits option.splits if_splits prod.splits)

lemma setup_call_facts:
  "is_setup_call c \<Longrightarrow>
   c \<noteq> Query q (JStr searchOption) \<and> c \<noteq> Query q (JStr messageInput) \<and> \<not> is_message_stage_call c"
  by (cases c) (auto simp: searchOption_def loginMarker_def messageInput_def)

lemma setup_not_search:
  assumes "list_all (\<lambda>ev. is_setup_call (fst ev)) pre"
  shows "(Query q (JStr searchOption), r) \<notin> set pre"
    and "(Query q (JStr messageInput), r) \<notin> set pre"
    and "list_all (\<lambda>ev. \<not> is_message_stage_call (fst ev)) pre"
proof -
  have a: "\<And>ev. ev \<in> set pre \<Longrightarrow> is_setup_call (fst ev)"
    using assms by (simp add: list_all_iff)
  show "(Query q (JStr searchOption), r) \<notin> set pre"
    using a setup_call_facts by fastforce
  show "(Query q (JStr messageInput), r) \<notin> set pre"
    using a setup_call_facts by fastforce
  show "list_all (\<lambda>ev. \<not> is_message_stage_call (fst ev)) pre"
    using a setup_call_facts by (simp add: list_all_iff)
qed

lemma sendMessage_stages:
  assumes "sendMessage R name message s = (r, s')"
  shows "\<exists>st s0 pre. ensureMessengerOpen R s = (Inr st, s0) \<and> trace s0 = trace s @ pre \<and>
           list_all (\<lambda>ev. is_setup_call (fst ev)) pre \<and> pre \<noteq> [] \<and>
           (if \<not> js_truthy (js_get st ''success'') then
              s' = s0 \<and> r = Inr (JObj [(''success'', JBool False), (''error'', js_get st ''error'')])
            else \<exists>p. this_page s0 = Some p)"
proof -
  obtain r0 s0 where e: "ensureMessengerOpen R s = (r0, s0)" by (cases "ensureMessengerOpen R s")
  from ensureMessengerOpen_success [OF e] obtain st pre where
    pre: "r0 = Inr st" "trace s0 = trace s @ pre" "list_all (\<lambda>ev. is_setup_call (fst ev)) pre"
    "pre \<noteq> []" "js_truthy (js_get st ''success'') \<longrightarrow> (\<exists>p. this_page s0 = Some p)"
    by blast
  have "\<not> js_truthy (js_get st ''success'') \<Longrightarrow>
      s' = s0 \<and> r = Inr (JObj [(''success'', JBool False), (''error'', js_get st ''error'')])"
    using assms e pre(1)
    by (simp add: sendMessage_def io_catch_def io_bind_def io_return_def)
  with e pre show ?thesis by auto
qed

lemmas stage_defs = getPage_unfold io_catch_def io_return_def io_bind_def
  io_then_def perform_def await_unit_def await_element_def searchInput_def searchOption_def
  messageInput_def new_events_def

lemma sendMessage_not_opened:
  assumes "sendMessage R name message s = (r, s')"
    and "ensureMessengerOpen R s = (Inr st, s0)" and "js_truthy (js_get st ''success'')"
    and "openConversation R name s0 = (Inr st1, s1)" and "\<not> js_truthy (js_get st1 ''success'')"
  shows "r = Inr st1 \<and> s' = s1"
  using assms by (simp add: sendMessage_def io_catch_def io_bind_def io_return_def)

lemma sendMessage_message_stage:
  assumes "sendMessage R name message s = (r, s')"
    and "ensureMessengerOpen R s = (Inr st, s0)" and "js_truthy (js_get st ''success'')"
    and "openConversation R name s0 = (Inr st1, s1)" and "js_truthy (js_get st1 ''success'')"
    and "this_page s1 = Some p"
  shows "\<exists>st2 more. r = Inr st2 \<and> trace s' = trace s1 @ more \<and>
           (\<forall>q. (Query q (JStr searchOption), GotElement None) \<notin> set more) \<and>
           (js_truthy (js_get st2 ''success'') \<or>
              (\<exists>q mi. (Query q (JStr messageInput), GotElement (Some mi)) \<in> set more) \<and>
              (\<forall>c e. (c, Threw e) \<notin> set more) \<longrightarrow>
            st2 = JObj [(''success'', JBool True)] \<and>
            (\<exists>mi. more = [(Query p (JStr messageInput), GotElement (Some mi)), (ElementClick mi, Done),
                (ElementFill mi message, Done), (KeyboardPress p ''Enter'', Done),
                (WaitForTimeout p 500, Done)]))"
  using assms
  by (auto simp: sendMessage_def stage_defs split: sum.splits option.splits if_splits prod.splits)

lemma openConversation_nothing_listed:
  assumes "never_rejects R" and "finds R searchInput" and "lacks R searchOption"
    and "this_page s = Some p"
  shows "\<exists>si. openConversation R name s =
           (Inr (JObj [(''success'', JBool False),
              (''error'', JStr (''Could not find conversation: '' @ js_String name))]),
            s\<lparr>trace := trace s @
              [(Query p (JStr searchInput), GotElement (Some si)), (ElementClick si, Done),
               (ElementFill si name, Done), (WaitForTimeout p 1000, Done),
               (Query p (JStr searchOption), GotElement None)]\<rparr>)"
  using assms(4)
  by (auto simp: openConversation_def getPage_unfold io_catch_def io_return_def io_bind_def
      io_then_def perform_def await_unit_def await_element_def
      never_rejects_facts [OF assms(1)] finds_facts [OF assms(2)] lacks_fact [OF assms(3)]
      split: sum.splits option.splits)

lemma openConversation_listed:
  assumes "never_rejects R" and "finds R searchInput" and "finds R searchOption"
    and "this_page s = Some p"
  shows "\<exists>si fr. openConversation R name s =
           (Inr (JObj [(''success'', JBool True)]),
            s\<lparr>trace := trace s @
              [(Query p (JStr searchInput), GotElement (Some si)), (ElementClick si, Done),
               (ElementFill si name, Done), (WaitForTimeout p 1000, Done),
               (Query p (JStr searchOption), GotElement (Some fr)), (ElementClick fr, Done),
               (WaitForTimeout p 500, Done)]\<rparr>)"
  using assms(4)
  by (auto simp: openConversation_def getPage_unfold io_catch_def io_return_def io_bind_def
      io_then_def perform_def await_unit_def await_element_def
      never_rejects_facts [OF assms(1)] finds_facts [OF assms(2)] finds_facts [OF assms(3)]
      split: sum.splits option.splits)

text \<open>
  C6 (as amended). On a page where the user is logged in, the search input is found, the
  search lists no result at all and no request is rejected, \<^verbatim>\<open>sendMessage\<close> returns the
  error result "Could not find conversation: name" with the literal name; its requests
  are those of the set-up followed by exactly: look up the search input, click it, fill it
  with the name, wait, look up the first result (none). The message input is never looked
  up and no key is pressed.
\<close>

theorem sendMessage_conversation_not_found:
  assumes "never_rejects R" and "lacks R loginMarker" and "finds R searchInput"
    and "lacks R searchOption"
  shows "\<exists>s' pre p si.
           sendMessage R (JStr name) message s =
             (Inr (JObj [(''success'', JBool False),
                (''error'', JStr (''Could not find conversation: '' @ name))]), s') \<and>
           list_all (\<lambda>ev. is_setup_call (fst ev)) pre \<and>
           new_events s s' =
             pre @ [(Query p (JStr searchInput), GotElement (Some si)), (ElementClick si, Done),
                    (ElementFill si (JStr name), Done), (WaitForTimeout p 1000, Done),
                    (Query p (JStr searchOption), GotElement None)] \<and>
           list_all (\<lambda>ev. \<not> is_message_stage_call (fst ev)) (new_events s s')"
proof -
  from ensureMessengerOpen_logged_in [OF assms(1,2), of s] obtain s1 pre p where
    e: "ensureMessengerOpen R s = (Inr (JObj [(''success'', JBool True)]), s1)"
    and t: "trace s1 = trace s @ pre" and pre: "list_all (\<lambda>ev. is_setup_call (fst ev)) pre"
    and p: "this_page s1 = Some p"
    by blast
  from openConversation_nothing_listed [OF assms(1,3,4) p, of "JStr name"] obtain si where
    o: "openConversation R (JStr name) s1 =
           (Inr (JObj [(''success'', JBool False),
              (''error'', JStr (''Could not find conversation: '' @ name))]),
            s1\<lparr>trace := trace s1 @
              [(Query p (JStr searchInput), GotElement (Some si)), (ElementClick si, Done),
               (ElementFill si (JStr name), Done), (WaitForTimeout p 1000, Done),
               (Query p (JStr searchOption), GotElement None)]\<rparr>)"
    by auto
  have run: "sendMessage R (JStr name) message s =
             (Inr (JObj [(''success'', JBool False),
                (''error'', JStr (''Could not find conversation: '' @ name))]),
              s1\<lparr>trace := trace s1 @
              [(Query p (JStr searchInput), GotElement (Some si)), (ElementClick si, Done),
               (ElementFill si (JStr name), Done), (WaitForTimeout p 1000, Done),
               (Query p (JStr searchOption), GotElement None)]\<rparr>)"
    using e o by (simp add: sendMessage_def io_catch_def io_bind_def io_return_def)
  have ev: "new_events s (s1\<lparr>trace := trace s1 @
              [(Query p (JStr searchInput), GotElement (Some si)), (ElementClick si, Done),
               (ElementFill si (JStr name), Done), (WaitForTimeout p 1000, Done),
               (Query p (JStr searchOption), GotElement None)]\<rparr>) =
             pre @ [(Query p (JStr searchInput), GotElement (Some si)), (ElementClick si, Done),
                    (ElementFill si (JStr name), Done), (WaitForTimeout p 1000, Done),
                    (Query p (JStr searchOption), GotElement None)]"
    using t by (simp add: new_events_def)
  have "list_all (\<lambda>ev. \<not> is_message_stage_call (fst ev))
          (pre @ [(Query p (JStr searchInput), GotElement (Some si)), (ElementClick si, Done),
                    (ElementFill si (JStr name), Done), (WaitForTimeout p 1000, Done),
                    (Query p (JStr searchOption), GotElement None)])"
    using setup_not_search(3) [OF pre]
    by (simp add: searchInput_def searchOption_def messageInput_def)
  with run ev pre show ?thesis by (metis (no_types, lifting))
qed

theorem sendMessage_conversation_not_found_witness:
  "(never_rejects (sample_runtime [searchInput]) \<and> lacks (sample_runtime [searchInput]) loginMarker \<and>
    finds (sample_runtime [searchInput]) searchInput \<and>
    lacks (sample_runtime [searchInput]) searchOption) \<and>
   sendMessage (sample_runtime [searchInput]) (JStr ''Alice'') (JStr ''hi'') open_state =
      (Inr (JObj [(''success'', JBool False), (''error'', JStr ''Could not find conversation: Alice'')]),
       open_state\<lparr>trace :=
         [(Query (Page 1) (JStr loginMarker), GotElement None),
          (Query (Page 1) (JStr searchInput), GotElement (Some (ElementHandle 1))),
          (ElementClick (ElementHandle 1), Done),
          (ElementFill (ElementHandle 1) (JStr ''Alice''), Done),
          (WaitForTimeout (Page 1) 1000, Done),
          (Query (Page 1) (JStr searchOption), GotElement None)]\<rparr>) \<and>
   (\<exists>s' pre p si.
           sendMessage (sample_runtime [searchInput]) (JStr ''Alice'') (JStr ''hi'') open_state =
             (Inr (JObj [(''success'', JBool False),
                (''error'', JStr (''Could not find conversation: '' @ ''Alice''))]), s') \<and>
           list_all (\<lambda>ev. is_setup_call (fst ev)) pre \<and>
           new_events open_state s' =
             pre @ [(Query p (JStr searchInput), GotElement (Some si)), (ElementClick si, Done),
                    (ElementFill si (JStr ''Alice''), Done), (WaitForTimeout p 1000, Done),
                    (Query p (JStr searchOption), GotElement None)] \<and>
           list_all (\<lambda>ev. \<not> is_message_stage_call (fst ev)) (new_events open_state s'))"
proof -
  have n: "never_rejects (sample_runtime [searchInput])" by (rule sample_never_rejects)
  have l: "lacks (sample_runtime [searchInput]) loginMarker"
    by (rule sample_lacks) (simp add: loginMarker_def searchInput_def)
  have f: "finds (sample_runtime [searchInput]) searchInput"
    by (rule sample_finds) simp
  have o: "lacks (sample_runtime [searchInput]) searchOption"
    by (rule sample_lacks) (simp add: searchOption_def searchInput_def)
  have run: "sendMessage (sample_runtime [searchInput]) (JStr ''Alice'') (JStr ''hi'') open_state =
      (Inr (JObj [(''success'', JBool False), (''error'', JStr ''Could not find conversation: Alice'')]),
       open_state\<lparr>trace :=
         [(Query (Page 1) (JStr loginMarker), GotElement None),
          (Query (Page 1) (JStr searchInput), GotElement (Some (ElementHandle 1))),
          (ElementClick (ElementHandle 1), Done),
          (ElementFill (ElementHandle 1) (JStr ''Alice''), Done),
          (WaitForTimeout (Page 1) 1000, Done),
          (Query (Page 1) (JStr searchOption), GotElement None)]\<rparr>)"
    by code_simp
  from n l f o run sendMessage_conversation_not_found [OF n l f o, of "''Alice''" "JStr ''hi''" open_state]
  show ?thesis by (intro conjI)
qed

text \<open>
  C6 (as stated) fails: the code never compares a listed result with the requested name.
  The search for "Alice" lists the single result "Bob", as \<^verbatim>\<open>searchConversation\<close>
  reports; no result matches the requested name, yet \<^verbatim>\<open>sendMessage\<close> clicks that
  result, fills the message input and presses Enter.
\<close>

theorem sendMessage_conversation_not_found_counterexample:
  "fst (searchConversation bob_runtime (JStr ''Alice'') open_state) =
     Inr (JObj [(''results'', JArr [JStr ''Bob''])]) \<and>
   sendMessage bob_runtime (JStr ''Alice'') (JStr ''hi'') open_state =
     (Inr (JObj [(''success'', JBool True)]),
      open_state\<lparr>trace :=
        [(Query (Page 1) (JStr loginMarker), GotElement None),
         (Query (Page 1) (JStr searchInput), GotElement (Some (ElementHandle 1))),
         (ElementClick (ElementHandle 1), Done),
         (ElementFill (ElementHandle 1) (JStr ''Alice''), Done),
         (WaitForTimeout (Page 1) 1000, Done),
         (Query (Page 1) (JStr searchOption), GotElement (Some (ElementHandle 5))),
         (ElementClick (ElementHandle 5), Done),
         (WaitForTimeout (Page 1) 500, Done),
         (Query (Page 1) (JStr messageInput), GotElement (Some (ElementHandle 8))),
         (ElementClick (ElementHandle 8), Done),
         (ElementFill (ElementHandle 8) (JStr ''hi''), Done),
         (KeyboardPress (Page 1) ''Enter'', Done),
         (WaitForTimeout (Page 1) 500, Done)]\<rparr>)"
  by code_simp

text \<open>
  C5 (as amended). On a page where the user is logged in, the search input and the message
  input are found, the search lists at least one result and no request is rejected,
  \<^verbatim>\<open>sendMessage\<close> succeeds and its requests after the set-up are exactly: look up, click
  and fill the search input, wait, look up the first result, click it, wait, look up the
  message input, click it, fill it with the literal message, press Enter, wait.
\<close>

theorem sendMessage_order:
  assumes "never_rejects R" and "lacks R loginMarker" and "finds R searchInput"
    and "finds R searchOption" and "finds R messageInput"
  shows "\<exists>s' pre p si fr mi.
           sendMessage R name message s = (Inr (JObj [(''success'', JBool True)]), s') \<and>
           list_all (\<lambda>ev. is_setup_call (fst ev)) pre \<and>
           new_events s s' =
             pre @ [(Query p (JStr searchInput), GotElement (Some si)), (ElementClick si, Done),
                    (ElementFill si name, Done), (WaitForTimeout p 1000, Done),
                    (Query p (JStr searchOption), GotElement (Some fr)), (ElementClick fr, Done),
                    (WaitForTimeout p 500, Done),
                    (Query p (JStr messageInput), GotElement (Some mi)), (ElementClick mi, Done),
                    (ElementFill mi message, Done), (KeyboardPress p ''Enter'', Done),
                    (WaitForTimeout p 500, Done)]"
proof -
  from ensureMessengerOpen_logged_in [OF assms(1,2), of s] obtain s1 pre p where
    e: "ensureMessengerOpen R s = (Inr (JObj [(''success'', JBool True)]), s1)"
    and t: "trace s1 = trace s @ pre" and pre: "list_all (\<lambda>ev. is_setup_call (fst ev)) pre"
    and p: "this_page s1 = Some p"
    by blast
  from openConversation_listed [OF assms(1,3,4) p, of name] obtain si fr where
    o: "openConversation R name s1 =
           (Inr (JObj [(''success'', JBool True)]),
            s1\<lparr>trace := trace s1 @
              [(Query p (JStr searchInput), GotElement (Some si)), (ElementClick si, Done),
               (ElementFill si name, Done), (WaitForTimeout p 1000, Done),
               (Query p (JStr searchOption), GotElement (Some fr)), (ElementClick fr, Done),
               (WaitForTimeout p 500, Done)]\<rparr>)"
    by blast
  have "\<exists>mi. sendMessage R name message s =
          (Inr (JObj [(''success'', JBool True)]),
           s1\<lparr>trace := trace s1 @
              [(Query p (JStr searchInput), GotElement (Some si)), (ElementClick si, Done),
               (ElementFill si name, Done), (WaitForTimeout p 1000, Done),
               (Query p (JStr searchOption), GotElement (Some fr)), (ElementClick fr, Done),
               (WaitForTimeout p 500, Done),
               (Query p (JStr messageInput), GotElement (Some mi)), (ElementClick mi, Done),
               (ElementFill mi message, Done), (KeyboardPress p ''Enter'', Done),
               (WaitForTimeout p 500, Done)]\<rparr>)"
    using e o p
    by (auto simp: sendMessage_def getPage_unfold io_catch_def io_return_def io_bind_def
        io_then_def perform_def await_unit_def await_element_def
        never_rejects_facts [OF assms(1)] finds_facts [OF assms(5)]
        split: sum.splits option.splits)
  then obtain mi where run: "sendMessage R name message s =
          (Inr (JObj [(''success'', JBool True)]),
           s1\<lparr>trace := trace s1 @
              [(Query p (JStr searchInput), GotElement (Some si)), (ElementClick si, Done),
               (ElementFill si name, Done), (WaitForTimeout p 1000, Done),
               (Query p (JStr searchOption), GotElement (Some fr)), (ElementClick fr, Done),
               (WaitForTimeout p 500, Done),
               (Query p (JStr messageInput), GotElement (Some mi)), (ElementClick mi, Done),
               (ElementFill mi message, Done), (KeyboardPress p ''Enter'', Done),
               (WaitForTimeout p 500, Done)]\<rparr>)" ..
  have ev: "new_events s (s1\<lparr>trace := trace s1 @
              [(Query p (JStr searchInput), GotElement (Some si)), (ElementClick si, Done),
               (ElementFill si name, Done), (WaitForTimeout p 1000, Done),
               (Query p (JStr searchOption), GotElement (Some fr)), (ElementClick fr, Done),
               (WaitForTimeout p 500, Done),
               (Query p (JStr messageInput), GotElement (Some mi)), (ElementClick mi, Done),
               (ElementFill mi message, Done), (KeyboardPress p ''Enter'', Done),
               (WaitForTimeout p 500, Done)]\<rparr>) =
             pre @ [(Query p (JStr searchInput), GotElement (Some si)), (ElementClick si, Done),
                    (ElementFill si name, Done), (WaitForTimeout p 1000, Done),
                    (Query p (JStr searchOption), GotElement (Some fr)), (ElementClick fr, Done),
                    (WaitForTimeout p 500, Done),
                    (Query p (JStr messageInput), GotElement (Some mi)), (ElementClick mi, Done),
                    (ElementFill mi message, Done), (KeyboardPress p ''Enter'', Done),
                    (WaitForTimeout p 500, Done)]"
    using t by (simp add: new_events_def)
  from run ev pre show ?thesis by (metis (no_types, lifting))
qed

text \<open>
  C5 (as stated) fails: the search finds a first result, which is clicked, but the page has
  no message input; the call returns an error result and nothing is filled or submitted.
\<close>

theorem sendMessage_order_counterexample:
  "sendMessage (sample_runtime [searchInput, searchOption]) (JStr ''Alice'') (JStr ''hi'') open_state =
     (Inr (JObj [(''success'', JBool False), (''error'', JStr ''Could not find message input'')]),
      open_state\<lparr>trace :=
        [(Query (Page 1) (JStr loginMarker), GotElement None),
         (Query (Page 1) (JStr searchInput), GotElement (Some (ElementHandle 1))),
         (ElementClick (ElementHandle 1), Done),
         (ElementFill (ElementHandle 1) (JStr ''Alice''), Done),
         (WaitForTimeout (Page 1) 1000, Done),
         (Query (Page 1) (JStr searchOption), GotElement (Some (ElementHandle 5))),
         (ElementClick (ElementHandle 5), Done),
         (WaitForTimeout (Page 1) 500, Done),
         (Query (Page 1) (JStr messageInput), GotElement None)]\<rparr>)"
  by code_simp

theorem sendMessage_order_witness:
  "(never_rejects (sample_runtime [searchInput, searchOption, messageInput]) \<and>
    lacks (sample_runtime [searchInput, searchOption, messageInput]) loginMarker \<and>
    finds (sample_runtime [searchInput, searchOption, messageInput]) searchInput \<and>
    finds (sample_runtime [searchInput, searchOption, messageInput]) searchOption \<and>
    finds (sample_runtime [searchInput, searchOption, messageInput]) messageInput) \<and>
   sendMessage (sample_runtime [searchInput, searchOption, messageInput])
       (JStr ''Alice'') (JStr ''hi'') open_state =
      (Inr (JObj [(''success'', JBool True)]),
       open_state\<lparr>trace :=
         [(Query (Page 1) (JStr loginMarker), GotElement None),
          (Query (Page 1) (JStr searchInput), GotElement (Some (ElementHandle 1))),
          (ElementClick (ElementHandle 1), Done),
          (ElementFill (ElementHandle 1) (JStr ''Alice''), Done),
          (WaitForTimeout (Page 1) 1000, Done),
          (Query (Page 1) (JStr searchOption), GotElement (Some (ElementHandle 5))),
          (ElementClick (ElementHandle 5), Done),
          (WaitForTimeout (Page 1) 500, Done),
          (Query (Page 1) (JStr messageInput), GotElement (Some (ElementHandle 8))),
          (ElementClick (ElementHandle 8), Done),
          (ElementFill (ElementHandle 8) (JStr ''hi''), Done),
          (KeyboardPress (Page 1) ''Enter'', Done),
          (WaitForTimeout (Page 1) 500, Done)]\<rparr>) \<and>
   (\<exists>s' pre p si fr mi.
           sendMessage (sample_runtime [searchInput, searchOption, messageInput])
               (JStr ''Alice'') (JStr ''hi'') open_state = (Inr (JObj [(''success'', JBool True)]), s') \<and>
           list_all (\<lambda>ev. is_setup_call (fst ev)) pre \<and>
           new_events open_state s' =
             pre @ [(Query p (JStr searchInput), GotElement (Some si)), (ElementClick si, Done),
                    (ElementFill si (JStr ''Alice''), Done), (WaitForTimeout p 1000, Done),
                    (Query p (JStr searchOption), GotElement (Some fr)), (ElementClick fr, Done),
                    (WaitForTimeout p 500, Done),
                    (Query p (JStr messageInput), GotElement (Some mi)), (ElementClick mi, Done),
                    (ElementFill mi (JStr ''hi''), Done), (KeyboardPress p ''Enter'', Done),
                    (WaitForTimeout p 500, Done)])"
proof -
  have n: "never_rejects (sample_runtime [searchInput, searchOption, messageInput])"
    by (rule sample_never_rejects)
  have l: "lacks (sample_runtime [searchInput, searchOption, messageInput]) loginMarker"
    by (rule sample_lacks)
      (simp add: loginMarker_def searchInput_def searchOption_def messageInput_def)
  have f1: "finds (sample_runtime [searchInput, searchOption, messageInput]) searchInput"
    by (rule sample_finds) simp
  have f2: "finds (sample_runtime [searchInput, searchOption, messageInput]) searchOption"
    by (rule sample_finds) simp
  have f3: "finds (sample_runtime [searchInput, searchOption, messageInput]) messageInput"
    by (rule sample_finds) simp
  have run: "sendMessage (sample_runtime [searchInput, searchOption, messageInput])
       (JStr ''Alice'') (JStr ''hi'') open_state =
      (Inr (JObj [(''success'', JBool True)]),
       open_state\<lparr>trace :=
         [(Query (Page 1) (JStr loginMarker), GotElement None),
          (Query (Page 1) (JStr searchInput), GotElement (Some (ElementHandle 1))),
          (ElementClick (ElementHandle 1), Done),
          (ElementFill (ElementHandle 1) (JStr ''Alice''), Done),
          (WaitForTimeout (Page 1) 1000, Done),
          (Query (Page 1) (JStr searchOption), GotElement (Some (ElementHandle 5))),
          (ElementClick (ElementHandle 5), Done),
          (WaitForTimeout (Page 1) 500, Done),
          (Query (Page 1) (JStr messageInput), GotElement (Some (ElementHandle 8))),
          (ElementClick (ElementHandle 8), Done),
          (ElementFill (ElementHandle 8) (JStr ''hi''), Done),
          (KeyboardPress (Page 1) ''Enter'', Done),
          (WaitForTimeout (Page 1) 500, Done)]\<rparr>)"
    by code_simp
  from n l f1 f2 f3 run
    sendMessage_order [OF n l f1 f2 f3, of "JStr ''Alice''" "JStr ''hi''" open_state]
  show ?thesis by (intro conjI)
qed

subsection \<open>The login marker\<close>



subsection \<open>Two calls in flight\<close>

lemma initialize_split: "initialize R = io_bind (init_first R) (init_rest R)"
  by (simp add: initialize_def init_first_def init_rest_def [abs_def])

lemma navigate_suspends:
  assumes "this_page s = None"
  shows "navigate R url s =
           (case init_first R s of
              (Inl e, s1) \<Rightarrow>
                (Inr (JObj [(''success'', JBool False), (''error'', JStr (String_error e))]), s1)
            | (Inr b, s1) \<Rightarrow> navigate_after_launch R url b s1)"
  using assms
  by (simp add: navigate_def navigate_after_launch_def getPage_def initialize_split
      io_catch_def io_bind_def io_then_def io_return_def split: prod.splits sum.splits)

lemma navigate_returns:
  "\<exists>r s'. navigate R url s = (Inr r, s') \<and> (\<exists>more. trace s' = trace (snd (getPage R s)) @ more)"
  by (cases "getPage R s")
    (auto simp: navigate_def io_catch_def io_return_def io_bind_def io_then_def perform_def
      await_unit_def await_string_def split: sum.splits prod.splits)

lemma callTool_navigate:
  "navigate R (js_get (JObj fs) ''url'') s = (Inr result, s') \<Longrightarrow>
   callTool R ''web_navigate'' (Some fs) s = (Inr result, s')"
  by (simp add: callTool_def tool_case_def read_arg_def io_bind_def io_return_def)

text \<open>
  C2 (as amended). There is no serializer. On a session without a page, where the launch
  of the engine resolves, a navigation call runs up to its first suspension point, that
  launch, and leaves the page slot empty there; the whole call is this first part followed
  by the part that runs when it is resumed. Any call that obtains the page from the
  suspended state starts its own browser interaction at once, with a second launch of the
  engine; a second navigation call does so and runs to its result while the first is
  still suspended.
\<close>

theorem calls_not_serialized:
  assumes "this_page s = None"
    and "r_browser R (trace s) (ChromiumLaunch (channel R) (headless (cfg R))) = Inr b"
  shows "\<exists>s1. init_first R s = (Inr b, s1) \<and>
           (\<exists>result s3.
              navigate_after_launch R (js_get (JObj first) ''url'') b s1 = (Inr result, s3) \<and>
              callTool R ''web_navigate'' (Some first) s = (Inr result, s3)) \<and>
           new_events s s1 = [(ChromiumLaunch (channel R) (headless (cfg R)), GotBrowser b)] \<and>
           this_page s1 = None \<and>
           (\<exists>r evs. new_events s1 (snd (getPage R s1)) =
              (ChromiumLaunch (channel R) (headless (cfg R)), r) # evs) \<and>
           (\<exists>result s2 r evs.
              callTool R ''web_navigate'' (Some second) s1 = (Inr result, s2) \<and>
              new_events s1 s2 = (ChromiumLaunch (channel R) (headless (cfg R)), r) # evs)"
proof -
  define s1 where
    "s1 = s\<lparr>trace := trace s @ [(ChromiumLaunch (channel R) (headless (cfg R)), GotBrowser b)]\<rparr>"
  have i: "init_first R s = (Inr b, s1)"
    using assms(2) by (simp add: init_first_def perform_def s1_def)
  have a: "\<exists>result s3.
              navigate_after_launch R (js_get (JObj first) ''url'') b s1 = (Inr result, s3) \<and>
              callTool R ''web_navigate'' (Some first) s = (Inr result, s3)"
  proof -
    from navigate_returns [of R "js_get (JObj first) ''url''" s] obtain result s3 where
      f: "navigate R (js_get (JObj first) ''url'') s = (Inr result, s3)"
      by blast
    from navigate_suspends [OF assms(1), of R "js_get (JObj first) ''url''"] i f
    have "navigate_after_launch R (js_get (JObj first) ''url'') b s1 = (Inr result, s3)"
      by simp
    with callTool_navigate [OF f] show ?thesis by blast
  qed
  have b: "new_events s s1 = [(ChromiumLaunch (channel R) (headless (cfg R)), GotBrowser b)]"
    and c: "this_page s1 = None"
    using assms(1) by (simp_all add: s1_def new_events_def)
  from getPage_relaunch [OF c, of R] obtain r evs where
    d: "new_events s1 (snd (getPage R s1)) = (ChromiumLaunch (channel R) (headless (cfg R)), r) # evs"
    by blast
  from navigate_returns [of R "js_get (JObj second) ''url''" s1] obtain result s2 more where
    n: "navigate R (js_get (JObj second) ''url'') s1 = (Inr result, s2)"
    and m: "trace s2 = trace (snd (getPage R s1)) @ more"
    by blast
  have g: "trace (snd (getPage R s1)) = trace s1 @ (ChromiumLaunch (channel R) (headless (cfg R)), r) # evs"
  proof -
    obtain r0 s0 where gp: "getPage R s1 = (r0, s0)" by (cases "getPage R s1")
    from getPage_events [OF gp] obtain pre where "trace s0 = trace s1 @ pre" by blast
    with d gp show ?thesis by (simp add: new_events_def)
  qed
  have "callTool R ''web_navigate'' (Some second) s1 = (Inr result, s2)"
    using n by (rule callTool_navigate)
  moreover have "new_events s1 s2 = (ChromiumLaunch (channel R) (headless (cfg R)), r) # evs @ more"
    using m g by (simp add: new_events_def)
  ultimately show ?thesis using i a b c d by blast
qed

theorem calls_not_serialized_witness:
  "(this_page fresh_state = None \<and>
    r_browser numbering_runtime (trace fresh_state)
      (ChromiumLaunch (channel numbering_runtime) (headless (cfg numbering_runtime))) =
      Inr (Browser 0)) \<and>
   (\<exists>s1. init_first numbering_runtime fresh_state = (Inr (Browser 0), s1) \<and>
         (\<exists>result s3.
            navigate_after_launch numbering_runtime
              (js_get (JObj [(''url'', JStr ''https://a.example'')]) ''url'') (Browser 0) s1 =
              (Inr result, s3) \<and>
            callTool numbering_runtime ''web_navigate'' (Some [(''url'', JStr ''https://a.example'')])
              fresh_state = (Inr result, s3)) \<and>
         new_events fresh_state s1 =
           [(ChromiumLaunch (channel numbering_runtime) (headless (cfg numbering_runtime)),
             GotBrowser (Browser 0))] \<and>
         this_page s1 = None \<and>
         (\<exists>r evs. new_events s1 (snd (getPage numbering_runtime s1)) =
            (ChromiumLaunch (channel numbering_runtime) (headless (cfg numbering_runtime)), r) # evs) \<and>
         (\<exists>result s2 r evs.
            callTool numbering_runtime ''web_navigate'' (Some [(''url'', JStr ''https://b.example'')]) s1 =
              (Inr result, s2) \<and>
            new_events s1 s2 =
              (ChromiumLaunch (channel numbering_runtime) (headless (cfg numbering_runtime)), r) # evs))"
proof -
  have p: "this_page fresh_state = None" by code_simp
  have l: "r_browser numbering_runtime (trace fresh_state)
      (ChromiumLaunch (channel numbering_runtime) (headless (cfg numbering_runtime))) =
      Inr (Browser 0)"
    by code_simp
  from p l calls_not_serialized [OF p l, of "[(''url'', JStr ''https://a.example'')]"
      "[(''url'', JStr ''https://b.example'')]"]
  show ?thesis by (intro conjI)
qed

text \<open>
  C2 (as stated) fails: the first navigation is suspended after its launch request; the
  second navigation, issued then, performs all of its browser interaction (a second engine,
  its context and page, the navigation) and completes; only then does the first
  navigation resume, open its own context and page and overwrite the three slots.
\<close>

theorem calls_not_serialized_counterexample:
  "init_first numbering_runtime fresh_state =
     (Inr (Browser 0),
      \<lparr>this_browser = None, this_context = None, this_page = None,
       trace = [(ChromiumLaunch (Some ''msedge'') False, GotBrowser (Browser 0))]\<rparr>) \<and>
   callTool numbering_runtime ''web_navigate'' (Some [(''url'', JStr ''https://b.example'')])
     \<lparr>this_browser = None, this_context = None, this_page = None,
      trace = [(ChromiumLaunch (Some ''msedge'') False, GotBrowser (Browser 0))]\<rparr> =
     (Inr (JObj [(''success'', JBool True), (''title'', JStr ''Messenger'')]),
      \<lparr>this_browser = Some (Browser 1), this_context = Some (BrowserContext 2),
       this_page = Some (Page 3),
       trace =
         [(ChromiumLaunch (Some ''msedge'') False, GotBrowser (Browser 0)),
          (ChromiumLaunch (Some ''msedge'') False, GotBrowser (Browser 1)),
          (NewContext (Browser 1), GotContext (BrowserContext 2)),
          (NewPage (BrowserContext 2), GotPage (Page 3)),
          (SetDefaultTimeout (Page 3) 10000, Done),
          (SetDefaultNavigationTimeout (Page 3) 30000, Done),
          (Goto (Page 3) (JStr ''https://b.example''), Done),
          (WaitForLoadState (Page 3) ''networkidle'', Done),
          (Title (Page 3), GotString ''Messenger'')]\<rparr>) \<and>
   navigate_after_launch numbering_runtime (JStr ''https://a.example'') (Browser 0)
     \<lparr>this_browser = Some (Browser 1), this_context = Some (BrowserContext 2),
      this_page = Some (Page 3),
      trace =
        [(ChromiumLaunch (Some ''msedge'') False, GotBrowser (Browser 0)),
         (ChromiumLaunch (Some ''msedge'') False, GotBrowser (Browser 1)),
         (NewContext (Browser 1), GotContext (BrowserContext 2)),
         (NewPage (BrowserContext 2), GotPage (Page 3)),
         (SetDefaultTimeout (Page 3) 10000, Done),
         (SetDefaultNavigationTimeout (Page 3) 30000, Done),
         (Goto (Page 3) (JStr ''https://b.example''), Done),
         (WaitForLoadState (Page 3) ''networkidle'', Done),
         (Title (Page 3), GotString ''Messenger'')]\<rparr> =
     (Inr (JObj [(''success'', JBool True), (''title'', JStr ''Messenger'')]),
      \<lparr>this_browser = Some (Browser 0), this_context = Some (BrowserContext 9),
       this_page = Some (Page 10),
       trace =
         [(ChromiumLaunch (Some ''msedge'') False, GotBrowser (Browser 0)),
          (ChromiumLaunch (Some ''msedge'') False, GotBrowser (Browser 1)),
          (NewContext (Browser 1), GotContext (BrowserContext 2)),
          (NewPage (BrowserContext 2), GotPage (Page 3)),
          (SetDefaultTimeout (Page 3) 10000, Done),
          (SetDefaultNavigationTimeout (Page 3) 30000, Done),
          (Goto (Page 3) (JStr ''https://b.example''), Done),
          (WaitForLoadState (Page 3) ''networkidle'', Done),
          (Title (Page 3), GotString ''Messenger''),
          (NewContext (Browser 0), GotContext (BrowserContext 9)),
          (NewPage (BrowserContext 9), GotPage (Page 10)),
          (SetDefaultTimeout (Page 10) 10000, Done),
          (SetDefaultNavigationTimeout (Page 10) 30000, Done),
          (Goto (Page 10) (JStr ''https://a.example''), Done),
          (WaitForLoadState (Page 10) ''networkidle'', Done),
          (Title (Page 10), GotString ''Messenger'')]\<rparr>)"
  by code_simp

subsection \<open>Required fields\<close>

lemma web_tools_interact:
  shows "\<exists>r s'. navigate R url s = (Inr r, s') \<and> new_events s s' \<noteq> []"
    and "\<exists>r s'. click R sel s = (Inr r, s') \<and> new_events s s' \<noteq> []"
    and "\<exists>r s'. type R sel txt s = (Inr r, s') \<and> new_events s s' \<noteq> []"
    and "\<exists>r s'. executeJs R scr s = (Inr r, s') \<and> new_events s s' \<noteq> []"
    and "\<exists>r s'. waitFor R sel tmo s = (Inr r, s') \<and> new_events s s' \<noteq> []"
proof -
  obtain r0 s0 where g: "getPage R s = (r0, s0)" by (cases "getPage R s")
  from getPage_events [OF g] obtain pre where
    t0: "trace s0 = trace s @ pre"
    and c: "case r0 of Inl e \<Rightarrow> this_page s = None \<and> this_page s0 = None \<and> pre \<noteq> []
            | Inr p \<Rightarrow> this_page s0 = Some p \<and> (this_page s \<noteq> None \<longrightarrow> s0 = s)"
    by blast
  show "\<exists>r s'. navigate R url s = (Inr r, s') \<and> new_events s s' \<noteq> []"
    using g t0 c
    by (auto simp: navigate_def io_catch_def io_return_def io_bind_def io_then_def perform_def
        await_unit_def await_string_def new_events_def split: sum.splits prod.splits)
  show "\<exists>r s'. click R sel s = (Inr r, s') \<and> new_events s s' \<noteq> []"
    using g t0 c
    by (auto simp: click_def io_catch_def io_return_def io_bind_def io_then_def perform_def
        await_unit_def new_events_def split: sum.splits prod.splits)
  show "\<exists>r s'. type R sel txt s = (Inr r, s') \<and> new_events s s' \<noteq> []"
    using g t0 c
    by (auto simp: type_def io_catch_def io_return_def io_bind_def io_then_def perform_def
        await_unit_def new_events_def split: sum.splits prod.splits)
  show "\<exists>r s'. executeJs R scr s = (Inr r, s') \<and> new_events s s' \<noteq> []"
    using g t0 c
    by (auto simp: executeJs_def io_catch_def io_return_def io_bind_def io_then_def perform_def
        await_value_def new_events_def split: sum.splits prod.splits)
  show "\<exists>r s'. waitFor R sel tmo s = (Inr r, s') \<and> new_events s s' \<noteq> []"
    using g t0 c
    by (auto simp: waitFor_def io_catch_def io_return_def io_bind_def io_then_def perform_def
        await_unit_def new_events_def split: sum.splits prod.splits)
qed

lemma searchConversation_interacts:
  "\<exists>r s'. searchConversation R query s = (Inr r, s') \<and> new_events s s' \<noteq> []"
proof -
  obtain r0 s0 where e: "ensureMessengerOpen R s = (r0, s0)" by (cases "ensureMessengerOpen R s")
  from ensureMessengerOpen_success [OF e] obtain st pre where
    r0: "r0 = Inr st" and t0: "trace s0 = trace s @ pre" and ne: "pre \<noteq> []"
    and page: "js_truthy (js_get st ''success'') \<longrightarrow> (\<exists>p. this_page s0 = Some p)"
    by blast
  show ?thesis
    using e r0 t0 ne page
    by (auto simp: searchConversation_def io_catch_def io_return_def io_bind_def io_then_def
        perform_def await_unit_def await_element_def await_rows_def getPage_unfold new_events_def
        split: sum.splits option.splits prod.splits)
qed

lemma sendMessage_interacts:
  "\<exists>r s'. sendMessage R name message s = (Inr r, s') \<and> new_events s s' \<noteq> []"
proof -
  obtain r s' where run: "sendMessage R name message s = (r, s')"
    by (cases "sendMessage R name message s")
  from sendMessage_stages [OF run] obtain st s0 pre where
    e: "ensureMessengerOpen R s = (Inr st, s0)" and t0: "trace s0 = trace s @ pre"
    and ne: "pre \<noteq> []"
    and st: "if \<not> js_truthy (js_get st ''success'') then
              s' = s0 \<and> r = Inr (JObj [(''success'', JBool False), (''error'', js_get st ''error'')])
            else \<exists>p. this_page s0 = Some p"
    by blast
  have "\<exists>st' evs. r = Inr st' \<and> trace s' = trace s @ evs \<and> evs \<noteq> []"
  proof (cases "js_truthy (js_get st ''success'')")
    case False
    with st t0 ne show ?thesis by auto
  next
    case True
    with st obtain p where p: "this_page s0 = Some p" by auto
    obtain r1 s1 where o: "openConversation R name s0 = (r1, s1)"
      by (cases "openConversation R name s0")
    from openConversation_returns [OF p o] obtain st1 evs where
      r1: "r1 = Inr st1" and t1: "trace s1 = trace s0 @ evs" and p1: "this_page s1 = Some p"
      by blast
    note o' = o [unfolded r1]
    show ?thesis
    proof (cases "js_truthy (js_get st1 ''success'')")
      case False
      from sendMessage_not_opened [OF run e True o' False] t0 t1 ne show ?thesis by auto
    next
      case opened: True
      from sendMessage_message_stage [OF run e True o' opened p1] obtain st2 more where
        "r = Inr st2" "trace s' = trace s1 @ more"
        by blast
      with t0 t1 ne show ?thesis by auto
    qed
  qed
  with run show ?thesis by (auto simp: new_events_def)
qed

lemma sendFile_interacts:
  "\<exists>r s'. sendFile R name filePath s = (Inr r, s') \<and> new_events s s' \<noteq> []"
proof -
  obtain r0 s0 where e: "ensureMessengerOpen R s = (r0, s0)" by (cases "ensureMessengerOpen R s")
  from ensureMessengerOpen_success [OF e] obtain st pre where
    r0: "r0 = Inr st" and t0: "trace s0 = trace s @ pre" and ne: "pre \<noteq> []"
    and page: "js_truthy (js_get st ''success'') \<longrightarrow> (\<exists>p. this_page s0 = Some p)"
    by blast
  show ?thesis
  proof (cases "js_truthy (js_get st ''success'')")
    case False
    with e r0 t0 ne show ?thesis
      by (simp add: sendFile_def io_catch_def io_return_def io_bind_def new_events_def)
  next
    case True
    with page obtain p where p: "this_page s0 = Some p" by auto
    obtain r1 s1 where o: "openConversation R name s0 = (r1, s1)"
      by (cases "openConversation R name s0")
    from openConversation_returns [OF p o] obtain st1 evs where
      r1: "r1 = Inr st1" and t1: "trace s1 = trace s0 @ evs" and p1: "this_page s1 = Some p"
      by blast
    show ?thesis
      using e r0 t0 ne True o r1 t1 p1
      by (auto simp: sendFile_def io_catch_def io_return_def io_bind_def io_then_def
          perform_def await_unit_def await_element_def getPage_unfold new_events_def
          split: sum.splits option.splits prod.splits)
  qed
qed

lemma TOOLS_required:
  "(name, required) \<in> set TOOLS \<Longrightarrow> required \<noteq> [] \<Longrightarrow>
   (name, required) \<in>
     {(''messenger_search_conversation'', [''query'']),
      (''messenger_send_message'', [''conversationName'', ''message'']),
      (''messenger_send_file'', [''conversationName'', ''filePath'']),
      (''web_navigate'', [''url'']),
      (''web_click'', [''selector'']),
      (''web_type'', [''selector'', ''text'']),
      (''web_execute_js'', [''script'']),
      (''web_wait_for'', [''selector''])}"
  by (auto simp: TOOLS_def)

text \<open>
  C1 (as amended). The dispatcher checks no required field. For a declared tool with
  required fields: a call with an argument object, whatever fields it has, is not rejected;
  its handler runs with every absent field undefined, makes at least one request to the
  browser library and returns a result. Only a call with no argument object at all fails
  before the handler runs, with the protocol error InternalError raised by the property
  read, and leaves the state as it was.
\<close>

theorem required_fields_unchecked:
  assumes "(name, required) \<in> set TOOLS" and "required \<noteq> []"
  shows "callTool R name None s =
           (Inl (McpError InternalError
              (''Tool execution failed: Cannot read properties of undefined (reading '' @
                 [CHR 0x27] @ hd required @ [CHR 0x27] @ '')'')), s) \<and>
         (\<exists>r s'. callTool R name (Some fs) s = (Inr r, s') \<and> new_events s s' \<noteq> []) \<and>
         (\<forall>k. map_of fs k = None \<longrightarrow> read_arg (Some fs) k s = (Inr JUndefined, s))"
proof -
  have u: "\<forall>k. map_of fs k = None \<longrightarrow> read_arg (Some fs) k s = (Inr JUndefined, s)"
    by (simp add: read_arg_def io_return_def)
  have a: "callTool R name None s =
           (Inl (McpError InternalError
              (''Tool execution failed: Cannot read properties of undefined (reading '' @
                 [CHR 0x27] @ hd required @ [CHR 0x27] @ '')'')), s)"
    using TOOLS_required [OF assms]
    by (elim insertE emptyE)
      (simp_all add: callTool_def tool_case_def read_arg_def io_bind_def io_throw_def)
  have b: "\<exists>r s'. callTool R name (Some fs) s = (Inr r, s') \<and> new_events s s' \<noteq> []"
    using TOOLS_required [OF assms]
  proof (elim insertE emptyE)
    assume "(name, required) = (''messenger_search_conversation'', [''query''])"
    then show ?thesis
      using searchConversation_interacts [of R "js_get (JObj fs) ''query''" s]
      by (auto simp: callTool_def tool_case_def read_arg_def io_bind_def io_return_def)
  next
    assume "(name, required) = (''messenger_send_message'', [''conversationName'', ''message''])"
    then show ?thesis
      using sendMessage_interacts [of R "js_get (JObj fs) ''conversationName''" "js_get (JObj fs) ''message''" s]
      by (auto simp: callTool_def tool_case_def read_arg_def io_bind_def io_return_def)
  next
    assume "(name, required) = (''messenger_send_file'', [''conversationName'', ''filePath''])"
    then show ?thesis
      using sendFile_interacts [of R "js_get (JObj fs) ''conversationName''" "js_get (JObj fs) ''filePath''" s]
      by (auto simp: callTool_def tool_case_def read_arg_def io_bind_def io_return_def)
  next
    assume "(name, required) = (''web_navigate'', [''url''])"
    then show ?thesis
      using web_tools_interact(1) [of R "js_get (JObj fs) ''url''" s]
      by (auto simp: callTool_def tool_case_def read_arg_def io_bind_def io_return_def)
  next
    assume "(name, required) = (''web_click'', [''selector''])"
    then show ?thesis
      using web_tools_interact(2) [of R "js_get (JObj fs) ''selector''" s]
      by (auto simp: callTool_def tool_case_def read_arg_def io_bind_def io_return_def)
  next
    assume "(name, required) = (''web_type'', [''selector'', ''text''])"
    then show ?thesis
      using web_tools_interact(3) [of R "js_get (JObj fs) ''selector''" "js_get (JObj fs) ''text''" s]
      by (auto simp: callTool_def tool_case_def read_arg_def io_bind_def io_return_def)
  next
    assume "(name, required) = (''web_execute_js'', [''script''])"
    then show ?thesis
      using web_tools_interact(4) [of R "js_get (JObj fs) ''script''" s]
      by (auto simp: callTool_def tool_case_def read_arg_def io_bind_def io_return_def)
  next
    assume "(name, required) = (''web_wait_for'', [''selector''])"
    then show ?thesis
      using web_tools_interact(5) [of R "js_get (JObj fs) ''selector''" "js_get (JObj fs) ''timeout''" s]
      by (auto simp: callTool_def tool_case_def read_arg_def io_bind_def io_return_def)
  qed
  from a b u show ?thesis by blast
qed

theorem required_fields_unchecked_witness:
  "((''web_click'', [''selector'']) \<in> set TOOLS \<and> [''selector''] \<noteq> []) \<and>
   callTool (sample_runtime []) ''web_click'' None open_state =
     (Inl (McpError InternalError
        (''Tool execution failed: Cannot read properties of undefined (reading '' @
           [CHR 0x27] @ hd [''selector''] @ [CHR 0x27] @ '')'')), open_state) \<and>
   callTool (sample_runtime []) ''web_click'' (Some []) open_state =
     (Inr (JObj [(''success'', JBool True)]),
      open_state\<lparr>trace := [(Click (Page 1) JUndefined, Done)]\<rparr>)"
proof -
  have m: "(''web_click'', [''selector'']) \<in> set TOOLS" by (simp add: TOOLS_def)
  have n: "[''selector''] \<noteq> []" by simp
  have r: "callTool (sample_runtime []) ''web_click'' (Some []) open_state =
     (Inr (JObj [(''success'', JBool True)]),
      open_state\<lparr>trace := [(Click (Page 1) JUndefined, Done)]\<rparr>)"
    by code_simp
  note t = required_fields_unchecked [OF m n, of "sample_runtime []" open_state "[]"]
  from m n conjunct1 [OF t] r show ?thesis
    by (intro conjI)
qed

text \<open>
  C1 (as stated) fails: \<^verbatim>\<open>query\<close> is required for \<^verbatim>\<open>messenger_search_conversation\<close>;
  called with an empty argument object on a fresh session, the handler runs: the engine, a
  context and a page are started, and two elements are looked up on the page.
\<close>

theorem required_fields_unchecked_counterexample:
  "(''messenger_search_conversation'', [''query'']) \<in> set TOOLS \<and>
   map_of ([] :: (string \<times> jsval) list) ''query'' = None \<and>
   callTool (sample_runtime []) ''messenger_search_conversation'' (Some []) fresh_state =
     (Inr (JObj [(''results'', JArr []), (''error'', JStr ''Could not find search input'')]),
      \<lparr>this_browser = Some (Browser 1), this_context = Some (BrowserContext 1),
       this_page = Some (Page 1),
       trace = [(ChromiumLaunch (Some ''msedge'') False, GotBrowser (Browser 1)),
                (NewContext (Browser 1), GotContext (BrowserContext 1)),
                (NewPage (BrowserContext 1), GotPage (Page 1)),
                (SetDefaultTimeout (Page 1) 10000, Done),
                (SetDefaultNavigationTimeout (Page 1) 30000, Done),
                (Query (Page 1) (JStr loginMarker), GotElement None),
                (Query (Page 1) (JStr searchInput), GotElement None)]\<rparr>)"
  by code_simp

end
